theory Spec2Isabelle
  imports Complex_Main "HOL-Library.Word"
begin

section \<open>Numbers, vectors and matrices\<close>

text \<open>
  The light code of \<^verbatim>\<open>rtx_lights_data.cpp\<close> computes on C++ \<^verbatim>\<open>float\<close>. A float is
  modelled as an exact real number or one of the three IEEE special values. Rounding,
  overflow to infinity and the sign of zero are not modelled: every theorem below that
  mentions arithmetic is a statement about this idealised arithmetic.
\<close>

datatype cfloat = Num real | PInf | NInf | NaN

text \<open>Unary minus of a float.\<close>

fun fneg :: "cfloat \<Rightarrow> cfloat" where
  "fneg (Num x) = Num (- x)"
| "fneg PInf = NInf"
| "fneg NInf = PInf"
| "fneg NaN = NaN"

text \<open>The comparisons \<^verbatim>\<open><\<close>, \<^verbatim>\<open>==\<close> and \<^verbatim>\<open>!=\<close>: every comparison with NaN but \<^verbatim>\<open>!=\<close> is false.\<close>

fun fless :: "cfloat \<Rightarrow> cfloat \<Rightarrow> bool" where
  "fless (Num x) (Num y) = (x < y)"
| "fless (Num x) PInf = True"
| "fless NInf (Num y) = True"
| "fless NInf PInf = True"
| "fless _ _ = False"

fun feq :: "cfloat \<Rightarrow> cfloat \<Rightarrow> bool" where
  "feq NaN _ = False"
| "feq _ NaN = False"
| "feq a b = (a = b)"

definition fneq :: "cfloat \<Rightarrow> cfloat \<Rightarrow> bool" where
  "fneq a b = (\<not> feq a b)"

text \<open>\<^verbatim>\<open>std::max(a, b)\<close> is \<^verbatim>\<open>(a < b) ? b : a\<close>.\<close>

definition fmax :: "cfloat \<Rightarrow> cfloat \<Rightarrow> cfloat" where
  "fmax a b = (if fless a b then b else a)"

fun fadd :: "cfloat \<Rightarrow> cfloat \<Rightarrow> cfloat" where
  "fadd (Num x) (Num y) = Num (x + y)"
| "fadd NaN _ = NaN"
| "fadd _ NaN = NaN"
| "fadd PInf NInf = NaN"
| "fadd NInf PInf = NaN"
| "fadd PInf _ = PInf"
| "fadd NInf _ = NInf"
| "fadd _ PInf = PInf"
| "fadd _ NInf = NInf"

definition fsub :: "cfloat \<Rightarrow> cfloat \<Rightarrow> cfloat" where
  "fsub a b = fadd a (fneg b)"

text \<open>The sign of a float that is not NaN, for products and quotients with an infinity.\<close>

fun fsign :: "cfloat \<Rightarrow> int" where
  "fsign (Num x) = (if x < 0 then -1 else if x = 0 then 0 else 1)"
| "fsign PInf = 1"
| "fsign NInf = -1"
| "fsign NaN = 0"

definition finf_of_sign :: "int \<Rightarrow> cfloat" where
  "finf_of_sign s = (if s = 0 then NaN else if s < 0 then NInf else PInf)"

fun fmul :: "cfloat \<Rightarrow> cfloat \<Rightarrow> cfloat" where
  "fmul (Num x) (Num y) = Num (x * y)"
| "fmul NaN _ = NaN"
| "fmul _ NaN = NaN"
| "fmul a b = finf_of_sign (fsign a * fsign b)"

text \<open>
  Division never traps: zero by zero and infinity by infinity are NaN, a nonzero number
  by zero is an infinity (of the dividend's sign, the zero being taken as positive).
\<close>

fun fdiv :: "cfloat \<Rightarrow> cfloat \<Rightarrow> cfloat" where
  "fdiv NaN _ = NaN"
| "fdiv _ NaN = NaN"
| "fdiv (Num x) (Num y) = (if y = 0 then finf_of_sign (fsign (Num x)) else Num (x / y))"
| "fdiv (Num x) _ = Num 0"
| "fdiv a (Num y) = (if y = 0 then a else finf_of_sign (fsign a * fsign (Num y)))"
| "fdiv _ _ = NaN"

fun fsqrt :: "cfloat \<Rightarrow> cfloat" where
  "fsqrt (Num x) = (if x < 0 then NaN else Num (sqrt x))"
| "fsqrt PInf = PInf"
| "fsqrt _ = NaN"

fun fcos :: "cfloat \<Rightarrow> cfloat" where
  "fcos (Num x) = Num (cos x)"
| "fcos _ = NaN"

text \<open>\<^verbatim>\<open>pow(2, e)\<close>.\<close>

fun fpow2 :: "cfloat \<Rightarrow> cfloat" where
  "fpow2 (Num x) = Num (2 powr x)"
| "fpow2 PInf = PInf"
| "fpow2 NInf = Num 0"
| "fpow2 NaN = NaN"

text \<open>\<^verbatim>\<open>Vector3\<close>, \<^verbatim>\<open>Vector2\<close>, \<^verbatim>\<open>pxr::GfVec3f\<close>, \<^verbatim>\<open>D3DVECTOR\<close>: tuples of floats.\<close>

type_synonym Vector3 = "cfloat \<times> cfloat \<times> cfloat"
type_synonym Vector2 = "cfloat \<times> cfloat"

fun vneg :: "Vector3 \<Rightarrow> Vector3" where
  "vneg (x, y, z) = (fneg x, fneg y, fneg z)"

fun vdiv :: "Vector3 \<Rightarrow> cfloat \<Rightarrow> Vector3" where
  "vdiv (x, y, z) s = (fdiv x s, fdiv y s, fdiv z s)"

fun vscale :: "Vector3 \<Rightarrow> cfloat \<Rightarrow> Vector3" where
  "vscale (x, y, z) s = (fmul x s, fmul y s, fmul z s)"

fun vmul :: "Vector3 \<Rightarrow> Vector3 \<Rightarrow> Vector3" where
  "vmul (x, y, z) (a, b, c) = (fmul x a, fmul y b, fmul z c)"

text \<open>\<^verbatim>\<open>GfVec3f::operator==\<close>: componentwise float equality.\<close>

fun veq :: "Vector3 \<Rightarrow> Vector3 \<Rightarrow> bool" where
  "veq (x, y, z) (a, b, c) = (feq x a \<and> feq y b \<and> feq z c)"

text \<open>
  \<^verbatim>\<open>pxr::GfMatrix4f\<close>: four rows of four floats, row major; \<^verbatim>\<open>m[i][j]\<close> is entry
  \<open>j\<close> of row \<open>i\<close>.
\<close>

type_synonym GfVec4f = "cfloat \<times> cfloat \<times> cfloat \<times> cfloat"
type_synonym GfMatrix4f = "GfVec4f \<times> GfVec4f \<times> GfVec4f \<times> GfVec4f"

fun vec4_at :: "GfVec4f \<Rightarrow> nat \<Rightarrow> cfloat" where
  "vec4_at (a, b, c, d) j = (if j = 0 then a else if j = 1 then b else if j = 2 then c else d)"

fun mat_row :: "GfMatrix4f \<Rightarrow> nat \<Rightarrow> GfVec4f" where
  "mat_row (r0, r1, r2, r3) i = (if i = 0 then r0 else if i = 1 then r1 else if i = 2 then r2 else r3)"

definition mat_at :: "GfMatrix4f \<Rightarrow> nat \<Rightarrow> nat \<Rightarrow> cfloat" where
  "mat_at m i j = vec4_at (mat_row m i) j"

definition GetRow3 :: "GfMatrix4f \<Rightarrow> nat \<Rightarrow> Vector3" where
  "GetRow3 m i = (mat_at m i 0, mat_at m i 1, mat_at m i 2)"

definition GetColumn :: "GfMatrix4f \<Rightarrow> nat \<Rightarrow> GfVec4f" where
  "GetColumn m j = (mat_at m 0 j, mat_at m 1 j, mat_at m 2 j, mat_at m 3 j)"

definition ExtractTranslation :: "GfMatrix4f \<Rightarrow> Vector3" where
  "ExtractTranslation m = (mat_at m 3 0, mat_at m 3 1, mat_at m 3 2)"

section \<open>Data model\<close>

subsection \<open>The legacy light call\<close>

text \<open>
  \<^verbatim>\<open>D3DLIGHT9\<close> of \<^verbatim>\<open>d3d9types.h\<close>. The type tag is an enumeration that a game may fill
  with any integer; the three supported tags are 1, 2 and 3.
\<close>

type_synonym D3DLIGHTTYPE = int
type_synonym D3DCOLORVALUE = "cfloat \<times> cfloat \<times> cfloat \<times> cfloat"
type_synonym D3DVECTOR = Vector3

definition D3DLIGHT_POINT :: D3DLIGHTTYPE where "D3DLIGHT_POINT = 1"
definition D3DLIGHT_SPOT :: D3DLIGHTTYPE where "D3DLIGHT_SPOT = 2"
definition D3DLIGHT_DIRECTIONAL :: D3DLIGHTTYPE where "D3DLIGHT_DIRECTIONAL = 3"

fun color_r :: "D3DCOLORVALUE \<Rightarrow> cfloat" where "color_r (r, g, b, a) = r"
fun color_g :: "D3DCOLORVALUE \<Rightarrow> cfloat" where "color_g (r, g, b, a) = g"
fun color_b :: "D3DCOLORVALUE \<Rightarrow> cfloat" where "color_b (r, g, b, a) = b"

record D3DLIGHT9 =
  Type :: D3DLIGHTTYPE
  Diffuse :: D3DCOLORVALUE
  Specular :: D3DCOLORVALUE
  Ambient :: D3DCOLORVALUE
  Position :: D3DVECTOR
  Direction :: D3DVECTOR
  RangeD3D :: cfloat
  Falloff :: cfloat
  Attenuation0 :: cfloat
  Attenuation1 :: cfloat
  Attenuation2 :: cfloat
  Theta :: cfloat
  Phi :: cfloat

subsection \<open>The working light record\<close>

datatype LightType =
  LightType_Sphere | LightType_Rect | LightType_Disk | LightType_Cylinder
| LightType_Distant | LightType_Unknown

text \<open>
  Modelled from the spec: \<^verbatim>\<open>LIST_LIGHT_CONSTANTS\<close> and \<^verbatim>\<open>DirtyFlags\<close> are declared in
  \<^verbatim>\<open>rtx_lights_data.h\<close>, which is not among the sources. The spec names the fields
  (color, intensity, exposure, radius, width, height, length, the distant-light angle,
  the colour-temperature toggle, colour temperature, cone angle, cone softness, focus);
  the source file uses a member \<^verbatim>\<open>m_<name>\<close> and a flag \<^verbatim>\<open>k_<name>\<close> for each of them and the
  flag \<^verbatim>\<open>k_Transform\<close> for the geometric bundle.
\<close>

datatype DirtyFlags =
  k_Color | k_Intensity | k_Exposure | k_Radius | k_Width | k_Height | k_Length
| k_AngleRadians | k_EnableColorTemp | k_ColorTemp | k_ConeAngleRadians | k_ConeSoftness
| k_Focus | k_Transform

text \<open>
  \<^verbatim>\<open>Flags<DirtyFlags>\<close> is a bit set with one bit per flag; it is modelled as the set of
  the flags whose bit is set. \<^verbatim>\<open>test\<close> and \<^verbatim>\<open>set\<close> are its two member functions used here.
\<close>

type_synonym DirtyMask = "DirtyFlags set"

definition test :: "DirtyMask \<Rightarrow> DirtyFlags \<Rightarrow> bool" where
  "test d f = (f \<in> d)"

definition set_flag :: "DirtyMask \<Rightarrow> DirtyFlags \<Rightarrow> DirtyMask" where
  "set_flag d f = insert f d"

text \<open>
  Modelled from the spec: \<^verbatim>\<open>m_allDirty\<close> is declared in \<^verbatim>\<open>rtx_lights_data.h\<close>, which is
  not among the sources. The spec: "\<^verbatim>\<open>allDirtyMask\<close> is the bitset with every bit set".
\<close>

definition m_allDirty :: DirtyMask where
  "m_allDirty = {k_Color, k_Intensity, k_Exposure, k_Radius, k_Width, k_Height, k_Length,
     k_AngleRadians, k_EnableColorTemp, k_ColorTemp, k_ConeAngleRadians, k_ConeSoftness,
     k_Focus, k_Transform}"

type_synonym XXH64_hash_t = "64 word"

record LightData =
  m_Color :: Vector3
  m_Intensity :: cfloat
  m_Exposure :: cfloat
  m_Radius :: cfloat
  m_Width :: cfloat
  m_Height :: cfloat
  m_Length :: cfloat
  m_AngleRadians :: cfloat
  m_EnableColorTemp :: bool
  m_ColorTemp :: cfloat
  m_ConeAngleRadians :: cfloat
  m_ConeSoftness :: cfloat
  m_Focus :: cfloat
  m_position :: Vector3
  m_xAxis :: Vector3
  m_yAxis :: Vector3
  m_zAxis :: Vector3
  m_xScale :: cfloat
  m_yScale :: cfloat
  m_zScale :: cfloat
  m_lightType :: LightType
  m_dirty :: DirtyMask
  m_cachedHash :: XXH64_hash_t
  m_isRelativeTransform :: bool
  m_isOverrideLight :: bool

subsection \<open>Renderer lights\<close>

text \<open>
  The renderer's light structures are declared in \<^verbatim>\<open>rtx_lights.h\<close> (not among the
  sources); a structure is modelled by the arguments its constructor is called with.
\<close>

datatype RtLightType =
  RtLightType_Sphere | RtLightType_Rect | RtLightType_Disk | RtLightType_Cylinder
| RtLightType_Distant

record RtLightShaping =
  enabled :: bool
  primaryAxis :: Vector3
  cosConeAngle :: cfloat
  coneSoftness :: cfloat
  focusExponent :: cfloat

datatype RtSphereLight = RtSphereLight Vector3 Vector3 cfloat RtLightShaping XXH64_hash_t
datatype RtRectLight = RtRectLight Vector3 Vector2 Vector3 Vector3 Vector3 RtLightShaping
datatype RtDiskLight = RtDiskLight Vector3 Vector2 Vector3 Vector3 Vector3 RtLightShaping
datatype RtCylinderLight = RtCylinderLight Vector3 cfloat Vector3 cfloat Vector3
datatype RtDistantLight = RtDistantLight Vector3 cfloat Vector3 XXH64_hash_t

text \<open>
  \<^verbatim>\<open>RtLight\<close> is constructed from one of the five structures; a sphere light may also be
  constructed from the new structure and the sphere light of the previous frame.
\<close>

datatype RtLight =
  RtLight_Sphere RtSphereLight
| RtLight_Sphere_Original RtSphereLight RtSphereLight
| RtLight_Rect RtRectLight
| RtLight_Disk RtDiskLight
| RtLight_Cylinder RtCylinderLight
| RtLight_Distant RtDistantLight

fun getType :: "RtLight \<Rightarrow> RtLightType" where
  "getType (RtLight_Sphere _) = RtLightType_Sphere"
| "getType (RtLight_Sphere_Original _ _) = RtLightType_Sphere"
| "getType (RtLight_Rect _) = RtLightType_Rect"
| "getType (RtLight_Disk _) = RtLightType_Disk"
| "getType (RtLight_Cylinder _) = RtLightType_Cylinder"
| "getType (RtLight_Distant _) = RtLightType_Distant"

text \<open>\<^verbatim>\<open>getSphereLight\<close> is only called on a light whose type is Sphere.\<close>

fun getSphereLight :: "RtLight \<Rightarrow> RtSphereLight option" where
  "getSphereLight (RtLight_Sphere s) = Some s"
| "getSphereLight (RtLight_Sphere_Original s _) = Some s"
| "getSphereLight _ = None"

subsection \<open>The scene-description node\<close>

datatype UsdTypeName =
  UsdLuxSphereLight | UsdLuxRectLight | UsdLuxDiskLight | UsdLuxCylinderLight
| UsdLuxDistantLight | UsdOtherType

datatype SdfSpecifier = SdfSpecifierDef | SdfSpecifierOver | SdfSpecifierClass

text \<open>
  What the code reads of a \<^verbatim>\<open>pxr::UsdPrim\<close>: its schema type (\<^verbatim>\<open>IsA\<close>), its path, its
  specifier and its attributes (by name, as lists of floats).
\<close>

record UsdPrim =
  prim_type :: UsdTypeName
  prim_path :: string
  prim_specifier :: SdfSpecifier
  prim_attributes :: "string \<Rightarrow> cfloat list option"

subsection \<open>What the source file takes from elsewhere\<close>

text \<open>
  The configurable conversion options (\<^verbatim>\<open>LightManager\<close>, \<^verbatim>\<open>RtxOptions\<close>) and the
  intensity-derivation helper \<^verbatim>\<open>LightUtils::calculateIntensity\<close>.
\<close>

record ConversionOptions =
  lightConversionSphereLightFixedRadius :: cfloat
  lightConversionDistantLightFixedAngle :: cfloat
  lightConversionDistantLightFixedIntensity :: cfloat
  sceneScale :: cfloat
  calculateIntensity :: "D3DLIGHT9 \<Rightarrow> cfloat \<Rightarrow> cfloat"

text \<open>
  Functions and values that the source file calls and that live in headers and libraries
  outside the sources: the xxHash function, the object representation of a float, the
  hash and the default value of a light shaping, the numeric values of the renderer's
  light types, the default-constructed record (\<^verbatim>\<open>LightData output;\<close>), the vector helpers
  \<^verbatim>\<open>safeNormalize\<close>, \<^verbatim>\<open>sanitizeSingularity\<close> and \<^verbatim>\<open>isApproxNormalized\<close>, USD's
  \<^verbatim>\<open>GfVec3f::Normalize\<close> (it normalizes the vector in place and returns a float), USD's
  blackbody colour, and the two expansions of \<^verbatim>\<open>LIST_LIGHT_CONSTANTS\<close> that read
  attributes and clamp to the table's ranges. They are parameters of the model.
\<close>

record Externals =
  XXH64 :: "8 word list \<Rightarrow> XXH64_hash_t \<Rightarrow> XXH64_hash_t"
  float_bytes :: "cfloat \<Rightarrow> 8 word list"
  RtLightShaping_getHash :: "RtLightShaping \<Rightarrow> XXH64_hash_t"
  RtLightShaping_default :: RtLightShaping
  RtLightType_value :: "RtLightType \<Rightarrow> XXH64_hash_t"
  LightData_default :: LightData
  safeNormalize :: "Vector3 \<Rightarrow> Vector3 \<Rightarrow> Vector3"
  sanitizeSingularity :: "Vector3 \<Rightarrow> Vector3 \<Rightarrow> Vector3"
  isApproxNormalized :: "Vector3 \<Rightarrow> cfloat \<Rightarrow> bool"
  GfVec3f_Normalize :: "Vector3 \<Rightarrow> cfloat \<times> Vector3"
  UsdLuxBlackbodyTemperatureAsRgb :: "cfloat \<Rightarrow> Vector3"
  deserialize_LIST_LIGHT_CONSTANTS :: "UsdPrim \<Rightarrow> LightData \<Rightarrow> LightData"
  sanitizeData_LIST_LIGHT_CONSTANTS :: "LightData \<Rightarrow> LightData"

section \<open>Operations\<close>

text \<open>
  The model follows the release build: an \<^verbatim>\<open>assert\<close> does not stop the program and
  execution continues with the next statement. The conditions asserted at the end of
  \<^verbatim>\<open>extractTransform\<close> are a predicate of their own. A call of \<^verbatim>\<open>Logger::err\<close> is an
  entry of the log that the function returns next to its value.
\<close>

datatype LogEntry = Logger_err string D3DLIGHTTYPE

subsection \<open>Merging two records\<close>

text \<open>
  \<^verbatim>\<open>WRITE_PARAMETER_MERGE(name, ...)\<close>: \<^verbatim>\<open>if (!m_dirty.test(DirtyFlags::k_name)) m_name = input.m_name;\<close>
  The member is given by its selector and its update function.
\<close>

definition WRITE_PARAMETER_MERGE ::
  "DirtyFlags \<Rightarrow> (LightData \<Rightarrow> 'a) \<Rightarrow> (('a \<Rightarrow> 'a) \<Rightarrow> LightData \<Rightarrow> LightData) \<Rightarrow>
   LightData \<Rightarrow> LightData \<Rightarrow> LightData" where
  "WRITE_PARAMETER_MERGE k_name m_name m_name_update input this =
     (if \<not> test (m_dirty this) k_name then m_name_update (\<lambda>_. m_name input) this else this)"

text \<open>\<^verbatim>\<open>LIST_LIGHT_CONSTANTS(WRITE_PARAMETER_MERGE)\<close>: one statement per field, in sequence.\<close>

definition merge_LIST_LIGHT_CONSTANTS :: "LightData \<Rightarrow> LightData \<Rightarrow> LightData" where
  "merge_LIST_LIGHT_CONSTANTS input this =
     (let this = WRITE_PARAMETER_MERGE k_Color m_Color m_Color_update input this;
          this = WRITE_PARAMETER_MERGE k_Intensity m_Intensity m_Intensity_update input this;
          this = WRITE_PARAMETER_MERGE k_Exposure m_Exposure m_Exposure_update input this;
          this = WRITE_PARAMETER_MERGE k_Radius m_Radius m_Radius_update input this;
          this = WRITE_PARAMETER_MERGE k_Width m_Width m_Width_update input this;
          this = WRITE_PARAMETER_MERGE k_Height m_Height m_Height_update input this;
          this = WRITE_PARAMETER_MERGE k_Length m_Length m_Length_update input this;
          this = WRITE_PARAMETER_MERGE k_AngleRadians m_AngleRadians m_AngleRadians_update input this;
          this = WRITE_PARAMETER_MERGE k_EnableColorTemp m_EnableColorTemp m_EnableColorTemp_update input this;
          this = WRITE_PARAMETER_MERGE k_ColorTemp m_ColorTemp m_ColorTemp_update input this;
          this = WRITE_PARAMETER_MERGE k_ConeAngleRadians m_ConeAngleRadians m_ConeAngleRadians_update input this;
          this = WRITE_PARAMETER_MERGE k_ConeSoftness m_ConeSoftness m_ConeSoftness_update input this;
          this = WRITE_PARAMETER_MERGE k_Focus m_Focus m_Focus_update input this
      in this)"

text \<open>\<^verbatim>\<open>void LightData::merge(const LightData& input)\<close>: the target is \<open>this\<close>.\<close>

definition merge :: "LightData \<Rightarrow> LightData \<Rightarrow> LightData" where
  "merge this input =
     (let this = merge_LIST_LIGHT_CONSTANTS input this
      in if \<not> test (m_dirty this) k_Transform
         then this\<lparr>m_position := m_position input,
                   m_xAxis := m_xAxis input,
                   m_yAxis := m_yAxis input,
                   m_zAxis := m_zAxis input,
                   m_xScale := m_xScale input,
                   m_yScale := m_yScale input,
                   m_zScale := m_zScale input\<rparr>
         else this)"

subsection \<open>Light shaping\<close>

definition kDegreesToRadians :: cfloat where
  "kDegreesToRadians = Num (pi / 180)"

definition isShapingEnabled :: "LightData \<Rightarrow> bool" where
  "isShapingEnabled this =
     (fneq (m_ConeAngleRadians this) (fmul (Num 180) kDegreesToRadians)
      \<or> fneq (m_ConeSoftness this) (Num 0)
      \<or> fneq (m_Focus this) (Num 0))"

definition getLightShaping :: "LightData \<Rightarrow> Vector3 \<Rightarrow> RtLightShaping" where
  "getLightShaping this zAxis =
     \<lparr>enabled = isShapingEnabled this,
      primaryAxis = zAxis,
      cosConeAngle = fcos (m_ConeAngleRadians this),
      coneSoftness = m_ConeSoftness this,
      focusExponent = m_Focus this\<rparr>"

subsection \<open>Conversion of a legacy light call\<close>

text \<open>
  The bytes that \<^verbatim>\<open>XXH64(&v[0], sizeof(v), seed)\<close> reads of a \<^verbatim>\<open>Vector3\<close> (three floats in
  sequence) and of a 64-bit hash (little endian).
\<close>

fun Vector3_bytes :: "Externals \<Rightarrow> Vector3 \<Rightarrow> 8 word list" where
  "Vector3_bytes ext (x, y, z) = float_bytes ext x @ float_bytes ext y @ float_bytes ext z"

definition uint64_bytes :: "XXH64_hash_t \<Rightarrow> 8 word list" where
  "uint64_bytes h = map (\<lambda>i. ucast (drop_bit (8 * i) h)) [0..<8]"

definition createFromDirectional :: "ConversionOptions \<Rightarrow> Externals \<Rightarrow> D3DLIGHT9 \<Rightarrow> LightData" where
  "createFromDirectional opts ext light =
     (let output = LightData_default ext;
          output = output\<lparr>m_lightType := LightType_Distant\<rparr>;
          originalDirection = Direction light;
          output = output\<lparr>m_zAxis := safeNormalize ext originalDirection (Num 0, Num 0, Num 1)\<rparr>;
          output = output\<lparr>m_AngleRadians := lightConversionDistantLightFixedAngle opts\<rparr>;
          output = output\<lparr>m_Color :=
            (color_r (Diffuse light), color_g (Diffuse light), color_b (Diffuse light))\<rparr>;
          output = output\<lparr>m_Intensity := lightConversionDistantLightFixedIntensity opts\<rparr>;
          output = output\<lparr>m_cachedHash := RtLightType_value ext RtLightType_Rect\<rparr>;
          legacyStableHalfAngle = fdiv (Num 0.0349) (Num 2);
          output = output\<lparr>m_cachedHash :=
            XXH64 ext (Vector3_bytes ext originalDirection) (m_cachedHash output)\<rparr>;
          output = output\<lparr>m_cachedHash :=
            XXH64 ext (float_bytes ext legacyStableHalfAngle) (m_cachedHash output)\<rparr>
      in output)"

definition createFromPointSpot :: "ConversionOptions \<Rightarrow> Externals \<Rightarrow> D3DLIGHT9 \<Rightarrow> LightData" where
  "createFromPointSpot opts ext light =
     (let output = LightData_default ext;
          output = output\<lparr>m_lightType := LightType_Sphere\<rparr>;
          originalPosition = Position light;
          originalBrightness =
            fmax (color_r (Diffuse light)) (fmax (color_g (Diffuse light)) (color_b (Diffuse light)));
          output = output\<lparr>m_position := originalPosition\<rparr>;
          output = output\<lparr>m_Radius :=
            fmul (lightConversionSphereLightFixedRadius opts) (sceneScale opts)\<rparr>;
          output = output\<lparr>m_Intensity := calculateIntensity opts light (m_Radius output)\<rparr>;
          output = output\<lparr>m_Color :=
            vdiv (color_r (Diffuse light), color_g (Diffuse light), color_b (Diffuse light))
              originalBrightness\<rparr>;
          originalLightShaping = RtLightShaping_default ext;
          (output, originalLightShaping) =
            (if Type light = D3DLIGHT_SPOT
             then (let originalDirection = Direction light;
                       output = output\<lparr>m_zAxis :=
                         safeNormalize ext originalDirection (Num 0, Num 0, Num 1)\<rparr>;
                       output = output\<lparr>m_ConeAngleRadians := fdiv (Phi light) (Num 2)\<rparr>;
                       output = output\<lparr>m_ConeSoftness :=
                         fsub (fcos (fdiv (Theta light) (Num 2))) (fcos (m_ConeAngleRadians output))\<rparr>;
                       output = output\<lparr>m_Focus := Falloff light\<rparr>
                   in (output, getLightShaping output originalDirection))
             else (output, originalLightShaping));
          output = output\<lparr>m_cachedHash := RtLightType_value ext RtLightType_Sphere\<rparr>;
          legacyStableRadius = Num 4;
          output = output\<lparr>m_cachedHash :=
            XXH64 ext (Vector3_bytes ext originalPosition) (m_cachedHash output)\<rparr>;
          output = output\<lparr>m_cachedHash :=
            XXH64 ext (float_bytes ext legacyStableRadius) (m_cachedHash output)\<rparr>;
          output = output\<lparr>m_cachedHash :=
            XXH64 ext (uint64_bytes (m_cachedHash output))
              (RtLightShaping_getHash ext originalLightShaping)\<rparr>
      in output)"

text \<open>
  \<^verbatim>\<open>std::optional<LightData> LightData::tryCreate(const D3DLIGHT9& light)\<close>. The default
  case of the switch falls through to the Point and Spot cases.
\<close>

definition tryCreate ::
  "ConversionOptions \<Rightarrow> Externals \<Rightarrow> D3DLIGHT9 \<Rightarrow> LogEntry list \<times> LightData option" where
  "tryCreate opts ext light =
     (if Type light < D3DLIGHT_POINT \<or> Type light > D3DLIGHT_DIRECTIONAL
      then ([Logger_err ''Attempted to convert a fixed function light with invalid light type: ''
               (Type light)], None)
      else if Type light = D3DLIGHT_POINT \<or> Type light = D3DLIGHT_SPOT
      then ([], Some (createFromPointSpot opts ext light))
      else if Type light = D3DLIGHT_DIRECTIONAL
      then ([], Some (createFromDirectional opts ext light))
      else ([], Some (createFromPointSpot opts ext light)))"

text \<open>
  \<^verbatim>\<open>void LightData::merge(const D3DLIGHT9& light)\<close>. The default case of the switch on the
  call's type falls through to the Point and Spot cases.
\<close>

definition merge_D3DLIGHT9 ::
  "ConversionOptions \<Rightarrow> Externals \<Rightarrow> LightData \<Rightarrow> D3DLIGHT9 \<Rightarrow> LogEntry list \<times> LightData" where
  "merge_D3DLIGHT9 opts ext this light =
     (let (logged, this) =
            (if m_dirty this \<noteq> m_allDirty
             then (case tryCreate opts ext light of
                     (logged, Some input) \<Rightarrow> (logged, merge this input)
                   | (logged, None) \<Rightarrow> (logged, this))
             else ([], this));
          this =
            (if m_lightType this = LightType_Unknown
             then (if Type light = D3DLIGHT_POINT \<or> Type light = D3DLIGHT_SPOT
                   then this\<lparr>m_lightType := LightType_Sphere\<rparr>
                   else if Type light = D3DLIGHT_DIRECTIONAL
                   then this\<lparr>m_lightType := LightType_Distant\<rparr>
                   else this\<lparr>m_lightType := LightType_Sphere\<rparr>)
             else this)
      in (logged, this))"

subsection \<open>Construction from a scene-description node\<close>

text \<open>
  \<^verbatim>\<open>s_unknownLightPattern\<close>, expanded in the source's comment to
  \<^verbatim>\<open>^/RootNode/lights/light_[0-9A-Fa-f]{16}$\<close>.
\<close>

definition s_unknownLightPattern_match :: "string \<Rightarrow> bool" where
  "s_unknownLightPattern_match path =
     (take 23 path = ''/RootNode/lights/light_''
      \<and> length (drop 23 path) = 16
      \<and> list_all (\<lambda>c. c \<in> set ''0123456789ABCDEFabcdef'') (drop 23 path))"

text \<open>
  \<^verbatim>\<open>getLightType\<close> returns whether the node is supported and writes the type through its
  reference argument: \<open>Some t\<close> is "true, with \<open>t\<close> written", \<open>None\<close> is "false, nothing
  written".
\<close>

definition getLightType :: "UsdPrim \<Rightarrow> LightType option" where
  "getLightType lightPrim =
     (if prim_type lightPrim = UsdLuxSphereLight then Some LightType_Sphere
      else if prim_type lightPrim = UsdLuxRectLight then Some LightType_Rect
      else if prim_type lightPrim = UsdLuxDiskLight then Some LightType_Disk
      else if prim_type lightPrim = UsdLuxCylinderLight then Some LightType_Cylinder
      else if prim_type lightPrim = UsdLuxDistantLight then Some LightType_Distant
      else if s_unknownLightPattern_match (prim_path lightPrim) then Some LightType_Unknown
      else None)"

definition isSupportedUsdLight :: "UsdPrim \<Rightarrow> bool" where
  "isSupportedUsdLight lightPrim = (getLightType lightPrim \<noteq> None)"

definition deserialize :: "Externals \<Rightarrow> UsdPrim \<Rightarrow> LightData \<Rightarrow> LightData" where
  "deserialize ext prim this =
     (let this = deserialize_LIST_LIGHT_CONSTANTS ext prim this;
          this = (if test (m_dirty this) k_ConeAngleRadians
                  then this\<lparr>m_ConeAngleRadians := fmul (m_ConeAngleRadians this) kDegreesToRadians\<rparr>
                  else this);
          this = (if test (m_dirty this) k_AngleRadians
                  then this\<lparr>m_AngleRadians := fmul (m_AngleRadians this) kDegreesToRadians\<rparr>
                  else this);
          this = (if prim_specifier prim = SdfSpecifierDef
                  then this\<lparr>m_dirty := m_allDirty\<rparr>
                  else this)
      in this)"

definition sanitizeData :: "Externals \<Rightarrow> LightData \<Rightarrow> LightData" where
  "sanitizeData ext this = sanitizeData_LIST_LIGHT_CONSTANTS ext this"

text \<open>
  \<^verbatim>\<open>void LightData::extractTransform(const pxr::GfMatrix4f* pLocalToRoot)\<close>; a null pointer
  is \<open>None\<close>. \<^verbatim>\<open>Normalize\<close> returns the float that becomes the scale, and the normalized
  vector.
\<close>

definition extractTransform :: "Externals \<Rightarrow> GfMatrix4f option \<Rightarrow> LightData \<Rightarrow> LightData" where
  "extractTransform ext pLocalToRoot this =
     (case pLocalToRoot of
        None \<Rightarrow> this
      | Some localToRoot \<Rightarrow>
         (let (xLength, xVecUsd) = GfVec3f_Normalize ext (GetRow3 localToRoot 0);
              (yLength, yVecUsd) = GfVec3f_Normalize ext (GetRow3 localToRoot 1);
              (zLength, zVecUsd) = GfVec3f_Normalize ext (GetRow3 localToRoot 2);
              this = this\<lparr>m_xScale := xLength, m_yScale := yLength, m_zScale := zLength\<rparr>;
              this = this\<lparr>m_position := ExtractTranslation localToRoot,
                          m_xAxis := xVecUsd, m_yAxis := yVecUsd, m_zAxis := zVecUsd\<rparr>;
              this = this\<lparr>m_xAxis := sanitizeSingularity ext (m_xAxis this) (Num 1, Num 0, Num 0)\<rparr>;
              this = this\<lparr>m_yAxis := sanitizeSingularity ext (m_yAxis this) (Num 0, Num 1, Num 0)\<rparr>;
              this = this\<lparr>m_zAxis := sanitizeSingularity ext (m_zAxis this) (Num 0, Num 0, Num 1)\<rparr>;
              this = (if m_lightType this = LightType_Sphere \<or> m_lightType this = LightType_Unknown
                      then this\<lparr>m_zAxis := vneg (m_zAxis this)\<rparr>
                      else this);
              this = (if fless (m_xScale this) (Num 0)
                      then this\<lparr>m_xScale := fneg (m_xScale this), m_xAxis := vneg (m_xAxis this)\<rparr>
                      else this);
              this = (if fless (m_yScale this) (Num 0)
                      then this\<lparr>m_yScale := fneg (m_yScale this), m_yAxis := vneg (m_yAxis this)\<rparr>
                      else this);
              this = (if fless (m_zScale this) (Num 0)
                      then this\<lparr>m_zScale := fneg (m_zScale this), m_zAxis := vneg (m_zAxis this)\<rparr>
                      else this)
          in this\<lparr>m_dirty := set_flag (m_dirty this) k_Transform\<rparr>))"

text \<open>
  The conditions that \<^verbatim>\<open>extractTransform\<close> asserts before it sets the dirty bit, as a
  predicate of the record it returns (setting the bit changes none of the values read).
\<close>

definition extractTransform_asserts :: "Externals \<Rightarrow> LightData \<Rightarrow> bool" where
  "extractTransform_asserts ext this =
     (isApproxNormalized ext (m_xAxis this) (Num 0.01)
      \<and> isApproxNormalized ext (m_yAxis this) (Num 0.01)
      \<and> isApproxNormalized ext (m_zAxis this) (Num 0.01)
      \<and> (fless (Num 0) (m_xScale this) \<and> fless (Num 0) (m_yScale this)
           \<and> fless (Num 0) (m_zScale this)))"

text \<open>
  The constructor \<^verbatim>\<open>LightData(lightPrim, pLocalToRoot, isOverrideLight, absoluteTransform)\<close>.
  Its initializer list sets the constants to the table's defaults, as the default
  constructor does.
\<close>

definition LightData_UsdPrim ::
  "Externals \<Rightarrow> UsdPrim \<Rightarrow> GfMatrix4f option \<Rightarrow> bool \<Rightarrow> bool \<Rightarrow> LightData" where
  "LightData_UsdPrim ext lightPrim pLocalToRoot isOverrideLight absoluteTransform =
     (let this = (LightData_default ext)
            \<lparr>m_lightType := LightType_Unknown,
             m_dirty := {},
             m_isRelativeTransform := (\<not> absoluteTransform \<and> \<not> isOverrideLight),
             m_isOverrideLight := isOverrideLight\<rparr>;
          this = (case getLightType lightPrim of
                    Some t \<Rightarrow> this\<lparr>m_lightType := t\<rparr>
                  | None \<Rightarrow> this);
          this = deserialize ext lightPrim this;
          this = extractTransform ext pLocalToRoot this;
          this = sanitizeData ext this
      in this)"

text \<open>
  \<^verbatim>\<open>tryCreate(const pxr::UsdPrim&, const pxr::GfMatrix4f*, bool, bool)\<close>. The guard reads
  the entries \<^verbatim>\<open>[0][j], [1][j], [2][j]\<close> for \<open>j = 0, 1, 2\<close>.
\<close>

definition tryCreate_UsdPrim ::
  "Externals \<Rightarrow> UsdPrim \<Rightarrow> GfMatrix4f option \<Rightarrow> bool \<Rightarrow> bool \<Rightarrow> LightData option" where
  "tryCreate_UsdPrim ext lightPrim pLocalToRoot isOverrideLight absoluteTransform =
     (if \<not> isSupportedUsdLight lightPrim then None
      else
        (let zeroVec3 = (Num 0, Num 0, Num 0);
             rejected =
               (case pLocalToRoot of
                  None \<Rightarrow> False
                | Some localToRoot \<Rightarrow>
                    veq (mat_at localToRoot 0 0, mat_at localToRoot 1 0, mat_at localToRoot 2 0) zeroVec3
                    \<or> veq (mat_at localToRoot 0 1, mat_at localToRoot 1 1, mat_at localToRoot 2 1) zeroVec3
                    \<or> veq (mat_at localToRoot 0 2, mat_at localToRoot 1 2, mat_at localToRoot 2 2) zeroVec3)
         in if rejected then None
            else Some (LightData_UsdPrim ext lightPrim pLocalToRoot isOverrideLight absoluteTransform)))"

subsection \<open>Lowering to a renderer light\<close>

definition calculateRadiance :: "Externals \<Rightarrow> LightData \<Rightarrow> Vector3" where
  "calculateRadiance ext this =
     (let temperature = (Num 1, Num 1, Num 1);
          temperature = (if m_EnableColorTemp this
                         then UsdLuxBlackbodyTemperatureAsRgb ext (m_ColorTemp this)
                         else temperature)
      in vmul (vscale (vscale (m_Color this) (m_Intensity this)) (fpow2 (m_Exposure this)))
           temperature)"

text \<open>
  \<^verbatim>\<open>RtLight LightData::toRtLight(const RtLight* const originalLight) const\<close>. The default
  case of the switch (the type Unknown) falls through to the Sphere case. The function is
  \<^verbatim>\<open>const\<close>: it returns the renderer light and leaves the record as it is.
\<close>

definition toRtLight :: "Externals \<Rightarrow> LightData \<Rightarrow> RtLight option \<Rightarrow> RtLight" where
  "toRtLight ext this originalLight =
     (case m_lightType this of
        LightType_Rect \<Rightarrow>
          (let dimensions = (fmul (m_Width this) (m_xScale this), fmul (m_Height this) (m_yScale this))
           in RtLight_Rect (RtRectLight (m_position this) dimensions (m_xAxis this) (m_yAxis this)
                (calculateRadiance ext this) (getLightShaping this (m_zAxis this))))
      | LightType_Disk \<Rightarrow>
          (let halfDimensions =
                 (fmul (m_Radius this) (m_xScale this), fmul (m_Radius this) (m_yScale this))
           in RtLight_Disk (RtDiskLight (m_position this) halfDimensions (m_xAxis this) (m_yAxis this)
                (calculateRadiance ext this) (getLightShaping this (m_zAxis this))))
      | LightType_Cylinder \<Rightarrow>
          (let radiusScale = fmax (m_yScale this) (m_zScale this)
           in RtLight_Cylinder (RtCylinderLight (m_position this) (fmul (m_Radius this) radiusScale)
                (m_xAxis this) (fmul (m_Length this) (m_xScale this)) (calculateRadiance ext this)))
      | LightType_Distant \<Rightarrow>
          (let halfAngle = fdiv (m_AngleRadians this) (Num 2)
           in RtLight_Distant (RtDistantLight (m_zAxis this) halfAngle (calculateRadiance ext this)
                (m_cachedHash this)))
      | _ \<Rightarrow>
          (let radiusScale = fmax (fmax (m_xScale this) (m_yScale this)) (m_zScale this);
               sphere = RtSphereLight (m_position this) (calculateRadiance ext this)
                          (fmul (m_Radius this) radiusScale) (getLightShaping this (m_zAxis this))
                          (m_cachedHash this)
           in (case originalLight of
                 None \<Rightarrow> RtLight_Sphere sphere
               | Some original \<Rightarrow>
                   (if getType original \<noteq> RtLightType_Sphere then RtLight_Sphere sphere
                    else (case getSphereLight original of
                            Some originalSphere \<Rightarrow> RtLight_Sphere_Original sphere originalSphere
                          | None \<Rightarrow> RtLight_Sphere sphere)))))"

subsection \<open>The operations on a working record\<close>

text \<open>
  After its construction a record is changed by the two \<^verbatim>\<open>merge\<close> overloads and read by
  \<^verbatim>\<open>toRtLight\<close>. One step applies one of them; it returns the record afterwards and the
  renderer light, if the step produced one.
\<close>

datatype LightOp =
  Op_merge LightData
| Op_merge_D3DLIGHT9 D3DLIGHT9
| Op_toRtLight "RtLight option"

fun step ::
  "ConversionOptions \<Rightarrow> Externals \<Rightarrow> LightData \<Rightarrow> LightOp \<Rightarrow> LightData \<times> RtLight option" where
  "step opts ext this (Op_merge input) = (merge this input, None)"
| "step opts ext this (Op_merge_D3DLIGHT9 light) = (snd (merge_D3DLIGHT9 opts ext this light), None)"
| "step opts ext this (Op_toRtLight originalLight) = (this, Some (toRtLight ext this originalLight))"

fun run :: "ConversionOptions \<Rightarrow> Externals \<Rightarrow> LightData \<Rightarrow> LightOp list \<Rightarrow> LightData" where
  "run opts ext this [] = this"
| "run opts ext this (op # ops) = run opts ext (fst (step opts ext this op)) ops"

section \<open>An instance of the parameters\<close>

text \<open>
  To evaluate the model at concrete inputs the parameters need values. The vector
  helpers follow the spec's description of them; the hash functions, the byte
  representation and the tables are stand-ins, their values are never the point of an
  evaluation below.
\<close>

fun GetLength :: "Vector3 \<Rightarrow> cfloat" where
  "GetLength (x, y, z) = fsqrt (fadd (fadd (fmul x x) (fmul y y)) (fmul z z))"

text \<open>
  Modelled from the spec: \<^verbatim>\<open>GfVec3f::Normalize\<close> is USD's. The spec: "Normalize each axis
  vector, recording its pre-normalization length as that axis's scale factor"; an axis
  may "normalize to the zero vector", which is what the zero vector does.
\<close>

definition Normalize_length :: "Vector3 \<Rightarrow> cfloat \<times> Vector3" where
  "Normalize_length v =
     (let len = GetLength v
      in (len, if feq len (Num 0) then v else vdiv v len))"

text \<open>
  Modelled from the spec: \<^verbatim>\<open>safeNormalize\<close> is declared outside the sources. The spec:
  "direction is normalized (zero-vector falls back to a canonical up-axis)".
\<close>

definition safeNormalize_fallback :: "Vector3 \<Rightarrow> Vector3 \<Rightarrow> Vector3" where
  "safeNormalize_fallback v fallback =
     (let len = GetLength v
      in if feq len (Num 0) then fallback else vdiv v len)"

text \<open>
  Modelled from the spec: \<^verbatim>\<open>sanitizeSingularity\<close> is declared outside the sources. The
  spec: "Replace any axis that normalizes to the zero vector with the corresponding
  canonical basis vector".
\<close>

definition sanitizeSingularity_fallback :: "Vector3 \<Rightarrow> Vector3 \<Rightarrow> Vector3" where
  "sanitizeSingularity_fallback v fallback =
     (if veq v (Num 0, Num 0, Num 0) then fallback else v)"

text \<open>
  Modelled from the spec: \<^verbatim>\<open>isApproxNormalized\<close> is declared outside the sources. The
  spec: "unit-length (tolerance 0.01)".
\<close>

definition isApproxNormalized_length :: "Vector3 \<Rightarrow> cfloat \<Rightarrow> bool" where
  "isApproxNormalized_length v threshold =
     (let d = fsub (GetLength v) (Num 1)
      in fless (if fless d (Num 0) then fneg d else d) threshold)"

definition example_LightData :: LightData where
  "example_LightData =
     \<lparr>m_Color = (Num 1, Num 1, Num 1), m_Intensity = Num 1, m_Exposure = Num 0,
      m_Radius = Num 1, m_Width = Num 1, m_Height = Num 1, m_Length = Num 1,
      m_AngleRadians = Num 0, m_EnableColorTemp = False, m_ColorTemp = Num 6500,
      m_ConeAngleRadians = Num pi, m_ConeSoftness = Num 0, m_Focus = Num 0,
      m_position = (Num 0, Num 0, Num 0),
      m_xAxis = (Num 1, Num 0, Num 0), m_yAxis = (Num 0, Num 1, Num 0),
      m_zAxis = (Num 0, Num 0, Num 1),
      m_xScale = Num 1, m_yScale = Num 1, m_zScale = Num 1,
      m_lightType = LightType_Unknown, m_dirty = {}, m_cachedHash = 0,
      m_isRelativeTransform = False, m_isOverrideLight = False\<rparr>"

definition example_Externals :: Externals where
  "example_Externals =
     \<lparr>XXH64 = (\<lambda>bytes seed. seed + of_nat (length bytes)),
      float_bytes = (\<lambda>f. [0, 0, 0, 0]),
      RtLightShaping_getHash = (\<lambda>shaping. 0),
      RtLightShaping_default =
        \<lparr>enabled = False, primaryAxis = (Num 0, Num 0, Num 1), cosConeAngle = Num 0,
         coneSoftness = Num 0, focusExponent = Num 0\<rparr>,
      RtLightType_value =
        (\<lambda>t. case t of RtLightType_Sphere \<Rightarrow> 0 | RtLightType_Rect \<Rightarrow> 1 | RtLightType_Disk \<Rightarrow> 2
              | RtLightType_Cylinder \<Rightarrow> 3 | RtLightType_Distant \<Rightarrow> 4),
      LightData_default = example_LightData,
      safeNormalize = safeNormalize_fallback,
      sanitizeSingularity = sanitizeSingularity_fallback,
      isApproxNormalized = isApproxNormalized_length,
      GfVec3f_Normalize = Normalize_length,
      UsdLuxBlackbodyTemperatureAsRgb = (\<lambda>t. (Num 1, Num 1, Num 1)),
      deserialize_LIST_LIGHT_CONSTANTS = (\<lambda>prim this. this),
      sanitizeData_LIST_LIGHT_CONSTANTS = (\<lambda>this. this)\<rparr>"

definition example_ConversionOptions :: ConversionOptions where
  "example_ConversionOptions =
     \<lparr>lightConversionSphereLightFixedRadius = Num 4,
      lightConversionDistantLightFixedAngle = Num 0.0349,
      lightConversionDistantLightFixedIntensity = Num 1,
      sceneScale = Num 1,
      calculateIntensity = (\<lambda>light radius. Num 1)\<rparr>"

definition example_D3DLIGHT9 :: D3DLIGHT9 where
  "example_D3DLIGHT9 =
     \<lparr>Type = 1,
      Diffuse = (Num 0.5, Num 0.5, Num 0.5, Num 1),
      Specular = (Num 0, Num 0, Num 0, Num 0),
      Ambient = (Num 0, Num 0, Num 0, Num 0),
      Position = (Num 1, Num 2, Num 3),
      Direction = (Num 0, Num 0, Num 2),
      RangeD3D = Num 100, Falloff = Num 1,
      Attenuation0 = Num 1, Attenuation1 = Num 0, Attenuation2 = Num 0,
      Theta = Num 1, Phi = Num 2\<rparr>"

definition example_UsdPrim :: UsdPrim where
  "example_UsdPrim =
     \<lparr>prim_type = UsdLuxRectLight,
      prim_path = ''/RootNode/lights/light_0123456789ABCDEF'',
      prim_specifier = SdfSpecifierOver,
      prim_attributes = (\<lambda>name. None)\<rparr>"

text \<open>
  An affine transform (its last column is (0, 0, 0, 1)) whose first row is zero and none
  of whose first three columns is.
\<close>

definition zero_row_transform :: GfMatrix4f where
  "zero_row_transform =
     ((Num 0, Num 0, Num 0, Num 0),
      (Num 1, Num 0, Num 0, Num 0),
      (Num 0, Num 1, Num 1, Num 0),
      (Num 0, Num 0, Num 0, Num 1))"

text \<open>A fully defined node at the path reserved for lights without a schema type.\<close>

definition unknown_def_UsdPrim :: UsdPrim where
  "unknown_def_UsdPrim =
     \<lparr>prim_type = UsdOtherType,
      prim_path = ''/RootNode/lights/light_0123456789ABCDEF'',
      prim_specifier = SdfSpecifierDef,
      prim_attributes = (\<lambda>name. None)\<rparr>"

text \<open>The affine transform that scales x by -2.\<close>

definition minus_two_x_transform :: GfMatrix4f where
  "minus_two_x_transform =
     ((Num (- 2), Num 0, Num 0, Num 0),
      (Num 0, Num 1, Num 0, Num 0),
      (Num 0, Num 0, Num 1, Num 0),
      (Num 0, Num 0, Num 0, Num 1))"

section \<open>Merging fills gaps\<close>

text \<open>One merge statement leaves every member but its own as it is, the dirty mask included.\<close>

lemma WRITE_PARAMETER_MERGE_frame:
  "(\<And>f x. g (upd f x) = g x) \<Longrightarrow>
   g (WRITE_PARAMETER_MERGE k sel upd input this) = g this"
  by (simp add: WRITE_PARAMETER_MERGE_def)

lemma WRITE_PARAMETER_MERGE_own:
  "(\<And>f x. sel (upd f x) = f (sel x)) \<Longrightarrow>
   sel (WRITE_PARAMETER_MERGE k sel upd input this) =
     (if test (m_dirty this) k then sel this else sel input)"
  by (simp add: WRITE_PARAMETER_MERGE_def)

lemma WRITE_PARAMETER_MERGE_all_dirty:
  "m_dirty this = m_allDirty \<Longrightarrow> WRITE_PARAMETER_MERGE k sel upd input this = this"
  by (cases k) (simp_all add: WRITE_PARAMETER_MERGE_def test_def m_allDirty_def)

lemma merge_LIST_m_dirty: "m_dirty (merge_LIST_LIGHT_CONSTANTS input this) = m_dirty this"
  by (simp add: merge_LIST_LIGHT_CONSTANTS_def Let_def WRITE_PARAMETER_MERGE_frame [of m_dirty])

lemma merge_LIST_constants:
  shows "m_Color (merge_LIST_LIGHT_CONSTANTS input this) =
           (if test (m_dirty this) k_Color then m_Color this else m_Color input)"
    and "m_Intensity (merge_LIST_LIGHT_CONSTANTS input this) =
           (if test (m_dirty this) k_Intensity then m_Intensity this else m_Intensity input)"
    and "m_Exposure (merge_LIST_LIGHT_CONSTANTS input this) =
           (if test (m_dirty this) k_Exposure then m_Exposure this else m_Exposure input)"
    and "m_Radius (merge_LIST_LIGHT_CONSTANTS input this) =
           (if test (m_dirty this) k_Radius then m_Radius this else m_Radius input)"
    and "m_Width (merge_LIST_LIGHT_CONSTANTS input this) =
           (if test (m_dirty this) k_Width then m_Width this else m_Width input)"
    and "m_Height (merge_LIST_LIGHT_CONSTANTS input this) =
           (if test (m_dirty this) k_Height then m_Height this else m_Height input)"
    and "m_Length (merge_LIST_LIGHT_CONSTANTS input this) =
           (if test (m_dirty this) k_Length then m_Length this else m_Length input)"
    and "m_AngleRadians (merge_LIST_LIGHT_CONSTANTS input this) =
           (if test (m_dirty this) k_AngleRadians then m_AngleRadians this
            else m_AngleRadians input)"
    and "m_EnableColorTemp (merge_LIST_LIGHT_CONSTANTS input this) =
           (if test (m_dirty this) k_EnableColorTemp then m_EnableColorTemp this
            else m_EnableColorTemp input)"
    and "m_ColorTemp (merge_LIST_LIGHT_CONSTANTS input this) =
           (if test (m_dirty this) k_ColorTemp then m_ColorTemp this else m_ColorTemp input)"
    and "m_ConeAngleRadians (merge_LIST_LIGHT_CONSTANTS input this) =
           (if test (m_dirty this) k_ConeAngleRadians then m_ConeAngleRadians this
            else m_ConeAngleRadians input)"
    and "m_ConeSoftness (merge_LIST_LIGHT_CONSTANTS input this) =
           (if test (m_dirty this) k_ConeSoftness then m_ConeSoftness this
            else m_ConeSoftness input)"
    and "m_Focus (merge_LIST_LIGHT_CONSTANTS input this) =
           (if test (m_dirty this) k_Focus then m_Focus this else m_Focus input)"
  unfolding merge_LIST_LIGHT_CONSTANTS_def Let_def
  by (simp_all add: WRITE_PARAMETER_MERGE_frame [of m_dirty]
        WRITE_PARAMETER_MERGE_frame [of m_Color] WRITE_PARAMETER_MERGE_own [of m_Color m_Color_update]
        WRITE_PARAMETER_MERGE_frame [of m_Intensity]
        WRITE_PARAMETER_MERGE_own [of m_Intensity m_Intensity_update]
        WRITE_PARAMETER_MERGE_frame [of m_Exposure]
        WRITE_PARAMETER_MERGE_own [of m_Exposure m_Exposure_update]
        WRITE_PARAMETER_MERGE_frame [of m_Radius]
        WRITE_PARAMETER_MERGE_own [of m_Radius m_Radius_update]
        WRITE_PARAMETER_MERGE_frame [of m_Width]
        WRITE_PARAMETER_MERGE_own [of m_Width m_Width_update]
        WRITE_PARAMETER_MERGE_frame [of m_Height]
        WRITE_PARAMETER_MERGE_own [of m_Height m_Height_update]
        WRITE_PARAMETER_MERGE_frame [of m_Length]
        WRITE_PARAMETER_MERGE_own [of m_Length m_Length_update]
        WRITE_PARAMETER_MERGE_frame [of m_AngleRadians]
        WRITE_PARAMETER_MERGE_own [of m_AngleRadians m_AngleRadians_update]
        WRITE_PARAMETER_MERGE_frame [of m_EnableColorTemp]
        WRITE_PARAMETER_MERGE_own [of m_EnableColorTemp m_EnableColorTemp_update]
        WRITE_PARAMETER_MERGE_frame [of m_ColorTemp]
        WRITE_PARAMETER_MERGE_own [of m_ColorTemp m_ColorTemp_update]
        WRITE_PARAMETER_MERGE_frame [of m_ConeAngleRadians]
        WRITE_PARAMETER_MERGE_own [of m_ConeAngleRadians m_ConeAngleRadians_update]
        WRITE_PARAMETER_MERGE_frame [of m_ConeSoftness]
        WRITE_PARAMETER_MERGE_own [of m_ConeSoftness m_ConeSoftness_update]
        WRITE_PARAMETER_MERGE_frame [of m_Focus]
        WRITE_PARAMETER_MERGE_own [of m_Focus m_Focus_update])

lemma merge_LIST_others:
  shows "m_position (merge_LIST_LIGHT_CONSTANTS input this) = m_position this"
    and "m_xAxis (merge_LIST_LIGHT_CONSTANTS input this) = m_xAxis this"
    and "m_yAxis (merge_LIST_LIGHT_CONSTANTS input this) = m_yAxis this"
    and "m_zAxis (merge_LIST_LIGHT_CONSTANTS input this) = m_zAxis this"
    and "m_xScale (merge_LIST_LIGHT_CONSTANTS input this) = m_xScale this"
    and "m_yScale (merge_LIST_LIGHT_CONSTANTS input this) = m_yScale this"
    and "m_zScale (merge_LIST_LIGHT_CONSTANTS input this) = m_zScale this"
    and "m_lightType (merge_LIST_LIGHT_CONSTANTS input this) = m_lightType this"
    and "m_cachedHash (merge_LIST_LIGHT_CONSTANTS input this) = m_cachedHash this"
    and "m_isRelativeTransform (merge_LIST_LIGHT_CONSTANTS input this) = m_isRelativeTransform this"
    and "m_isOverrideLight (merge_LIST_LIGHT_CONSTANTS input this) = m_isOverrideLight this"
  unfolding merge_LIST_LIGHT_CONSTANTS_def Let_def
  by (simp_all add: WRITE_PARAMETER_MERGE_frame [of m_position]
        WRITE_PARAMETER_MERGE_frame [of m_xAxis] WRITE_PARAMETER_MERGE_frame [of m_yAxis]
        WRITE_PARAMETER_MERGE_frame [of m_zAxis] WRITE_PARAMETER_MERGE_frame [of m_xScale]
        WRITE_PARAMETER_MERGE_frame [of m_yScale] WRITE_PARAMETER_MERGE_frame [of m_zScale]
        WRITE_PARAMETER_MERGE_frame [of m_lightType] WRITE_PARAMETER_MERGE_frame [of m_cachedHash]
        WRITE_PARAMETER_MERGE_frame [of m_isRelativeTransform]
        WRITE_PARAMETER_MERGE_frame [of m_isOverrideLight])

lemma merge_m_dirty: "m_dirty (merge this input) = m_dirty this"
  by (simp add: merge_def Let_def merge_LIST_m_dirty)

lemma merge_m_lightType: "m_lightType (merge this input) = m_lightType this"
  by (simp add: merge_def Let_def merge_LIST_others)

lemma merge_constants:
  shows "m_Color (merge this input) =
           (if test (m_dirty this) k_Color then m_Color this else m_Color input)"
    and "m_Intensity (merge this input) =
           (if test (m_dirty this) k_Intensity then m_Intensity this else m_Intensity input)"
    and "m_Exposure (merge this input) =
           (if test (m_dirty this) k_Exposure then m_Exposure this else m_Exposure input)"
    and "m_Radius (merge this input) =
           (if test (m_dirty this) k_Radius then m_Radius this else m_Radius input)"
    and "m_Width (merge this input) =
           (if test (m_dirty this) k_Width then m_Width this else m_Width input)"
    and "m_Height (merge this input) =
           (if test (m_dirty this) k_Height then m_Height this else m_Height input)"
    and "m_Length (merge this input) =
           (if test (m_dirty this) k_Length then m_Length this else m_Length input)"
    and "m_AngleRadians (merge this input) =
           (if test (m_dirty this) k_AngleRadians then m_AngleRadians this
            else m_AngleRadians input)"
    and "m_EnableColorTemp (merge this input) =
           (if test (m_dirty this) k_EnableColorTemp then m_EnableColorTemp this
            else m_EnableColorTemp input)"
    and "m_ColorTemp (merge this input) =
           (if test (m_dirty this) k_ColorTemp then m_ColorTemp this else m_ColorTemp input)"
    and "m_ConeAngleRadians (merge this input) =
           (if test (m_dirty this) k_ConeAngleRadians then m_ConeAngleRadians this
            else m_ConeAngleRadians input)"
    and "m_ConeSoftness (merge this input) =
           (if test (m_dirty this) k_ConeSoftness then m_ConeSoftness this
            else m_ConeSoftness input)"
    and "m_Focus (merge this input) =
           (if test (m_dirty this) k_Focus then m_Focus this else m_Focus input)"
  by (simp_all add: merge_def Let_def merge_LIST_m_dirty merge_LIST_constants)

lemma merge_geometry:
  "(m_position (merge this input), m_xAxis (merge this input), m_yAxis (merge this input),
    m_zAxis (merge this input), m_xScale (merge this input), m_yScale (merge this input),
    m_zScale (merge this input)) =
   (if test (m_dirty this) k_Transform
    then (m_position this, m_xAxis this, m_yAxis this, m_zAxis this,
          m_xScale this, m_yScale this, m_zScale this)
    else (m_position input, m_xAxis input, m_yAxis input, m_zAxis input,
          m_xScale input, m_yScale input, m_zScale input))"
  by (simp add: merge_def Let_def merge_LIST_m_dirty merge_LIST_others)

text \<open>
  C3. For a target \<open>this\<close> and a source \<open>input\<close>, after \<open>merge\<close> every named field holds
  the target's value if the target's dirty bit of the field is set, and the source's
  value if it is not; the position, the three axes and the three scales are taken
  together, all from the target or all from the source, by the one bit \<open>k_Transform\<close>;
  and the dirty mask of the target is what it was, so a bit that was unset stays unset.
\<close>

theorem merge_gap_filling:
  "m_Color (merge this input) =
     (if test (m_dirty this) k_Color then m_Color this else m_Color input)
   \<and> m_Intensity (merge this input) =
     (if test (m_dirty this) k_Intensity then m_Intensity this else m_Intensity input)
   \<and> m_Exposure (merge this input) =
     (if test (m_dirty this) k_Exposure then m_Exposure this else m_Exposure input)
   \<and> m_Radius (merge this input) =
     (if test (m_dirty this) k_Radius then m_Radius this else m_Radius input)
   \<and> m_Width (merge this input) =
     (if test (m_dirty this) k_Width then m_Width this else m_Width input)
   \<and> m_Height (merge this input) =
     (if test (m_dirty this) k_Height then m_Height this else m_Height input)
   \<and> m_Length (merge this input) =
     (if test (m_dirty this) k_Length then m_Length this else m_Length input)
   \<and> m_AngleRadians (merge this input) =
     (if test (m_dirty this) k_AngleRadians then m_AngleRadians this else m_AngleRadians input)
   \<and> m_EnableColorTemp (merge this input) =
     (if test (m_dirty this) k_EnableColorTemp then m_EnableColorTemp this
      else m_EnableColorTemp input)
   \<and> m_ColorTemp (merge this input) =
     (if test (m_dirty this) k_ColorTemp then m_ColorTemp this else m_ColorTemp input)
   \<and> m_ConeAngleRadians (merge this input) =
     (if test (m_dirty this) k_ConeAngleRadians then m_ConeAngleRadians this
      else m_ConeAngleRadians input)
   \<and> m_ConeSoftness (merge this input) =
     (if test (m_dirty this) k_ConeSoftness then m_ConeSoftness this else m_ConeSoftness input)
   \<and> m_Focus (merge this input) =
     (if test (m_dirty this) k_Focus then m_Focus this else m_Focus input)
   \<and> (m_position (merge this input), m_xAxis (merge this input), m_yAxis (merge this input),
      m_zAxis (merge this input), m_xScale (merge this input), m_yScale (merge this input),
      m_zScale (merge this input)) =
     (if test (m_dirty this) k_Transform
      then (m_position this, m_xAxis this, m_yAxis this, m_zAxis this,
            m_xScale this, m_yScale this, m_zScale this)
      else (m_position input, m_xAxis input, m_yAxis input, m_zAxis input,
            m_xScale input, m_yScale input, m_zScale input))
   \<and> m_dirty (merge this input) = m_dirty this"
  by (intro conjI merge_constants merge_geometry merge_m_dirty)

section \<open>Merging into a fully defined record\<close>

lemma merge_LIST_all_dirty:
  "m_dirty this = m_allDirty \<Longrightarrow> merge_LIST_LIGHT_CONSTANTS input this = this"
  by (simp add: merge_LIST_LIGHT_CONSTANTS_def Let_def WRITE_PARAMETER_MERGE_all_dirty)

lemma merge_all_dirty: "m_dirty this = m_allDirty \<Longrightarrow> merge this input = this"
  by (simp add: merge_def Let_def merge_LIST_all_dirty test_def m_allDirty_def)

text \<open>The type that the switch of \<^verbatim>\<open>merge(const D3DLIGHT9&)\<close> gives a record of unknown type.\<close>

lemma merge_D3DLIGHT9_m_lightType:
  "m_lightType (snd (merge_D3DLIGHT9 opts ext this light)) =
     (if m_lightType this = LightType_Unknown
      then (if Type light = D3DLIGHT_DIRECTIONAL then LightType_Distant else LightType_Sphere)
      else m_lightType this)"
proof (cases "m_dirty this \<noteq> m_allDirty")
  case False
  then show ?thesis
    by (simp add: merge_D3DLIGHT9_def D3DLIGHT_DIRECTIONAL_def D3DLIGHT_POINT_def
        D3DLIGHT_SPOT_def)
next
  case True
  obtain logged r where t: "tryCreate opts ext light = (logged, r)"
    by (cases "tryCreate opts ext light")
  show ?thesis
  proof (cases r)
    case None
    with True t show ?thesis
      by (simp add: merge_D3DLIGHT9_def D3DLIGHT_DIRECTIONAL_def D3DLIGHT_POINT_def
          D3DLIGHT_SPOT_def)
  next
    case (Some input)
    with True t show ?thesis
      by (simp add: merge_D3DLIGHT9_def merge_m_lightType D3DLIGHT_DIRECTIONAL_def
          D3DLIGHT_POINT_def D3DLIGHT_SPOT_def)
  qed
qed

text \<open>
  C6, as the code has it. Merging into a record whose dirty mask is \<open>m_allDirty\<close> changes
  no field, no part of the geometric bundle and not the dirty mask: \<open>merge\<close> returns the
  target itself, and \<open>merge\<close> of a legacy light call does not convert the call and logs
  nothing. The light type is unchanged as well unless it is Unknown: the legacy-call
  overload resolves an Unknown type from the call's type tag after the fast path, also
  for a fully defined record.
\<close>

theorem merge_all_dirty_no_op:
  "m_dirty this = m_allDirty \<Longrightarrow>
   merge this input = this
   \<and> merge_D3DLIGHT9 opts ext this light =
       ([], if m_lightType this = LightType_Unknown
            then this\<lparr>m_lightType :=
                   (if Type light = D3DLIGHT_DIRECTIONAL then LightType_Distant
                    else LightType_Sphere)\<rparr>
            else this)"
  by (simp add: merge_all_dirty merge_D3DLIGHT9_def D3DLIGHT_DIRECTIONAL_def
      D3DLIGHT_POINT_def D3DLIGHT_SPOT_def)

theorem merge_all_dirty_no_op_witness:
  "m_dirty (example_LightData\<lparr>m_dirty := m_allDirty, m_lightType := LightType_Rect\<rparr>) = m_allDirty
   \<and> merge (example_LightData\<lparr>m_dirty := m_allDirty, m_lightType := LightType_Rect\<rparr>)
        (createFromPointSpot example_ConversionOptions example_Externals example_D3DLIGHT9)
      = example_LightData\<lparr>m_dirty := m_allDirty, m_lightType := LightType_Rect\<rparr>
   \<and> merge_D3DLIGHT9 example_ConversionOptions example_Externals
        (example_LightData\<lparr>m_dirty := m_allDirty, m_lightType := LightType_Rect\<rparr>)
        example_D3DLIGHT9
      = ([], example_LightData\<lparr>m_dirty := m_allDirty, m_lightType := LightType_Rect\<rparr>)"
  using merge_all_dirty_no_op [of "example_LightData\<lparr>m_dirty := m_allDirty, m_lightType := LightType_Rect\<rparr>"
      "createFromPointSpot example_ConversionOptions example_Externals example_D3DLIGHT9"
      example_ConversionOptions example_Externals example_D3DLIGHT9]
  by simp

text \<open>
  The light type is not unchanged for every fully defined record. The record constructed
  from a fully defined node at the reserved path, with no light schema, has every dirty
  bit set and the type Unknown; after the merge of a Point light call its type is Sphere.
\<close>

lemma getLightType_unknown_def_UsdPrim: "getLightType unknown_def_UsdPrim = Some LightType_Unknown"
  by (simp add: getLightType_def unknown_def_UsdPrim_def s_unknownLightPattern_match_def)

lemma LightData_UsdPrim_unknown_def:
  "LightData_UsdPrim example_Externals unknown_def_UsdPrim None False False =
     example_LightData\<lparr>m_dirty := m_allDirty, m_isRelativeTransform := True\<rparr>"
proof -
  have s: "prim_specifier unknown_def_UsdPrim = SdfSpecifierDef"
    by (simp add: unknown_def_UsdPrim_def)
  show ?thesis
    by (simp add: LightData_UsdPrim_def Let_def getLightType_unknown_def_UsdPrim deserialize_def
        sanitizeData_def extractTransform_def s example_Externals_def test_def)
      (simp add: example_LightData_def)
qed

theorem merge_all_dirty_changes_unknown_type:
  "tryCreate_UsdPrim example_Externals unknown_def_UsdPrim None False False =
     Some (example_LightData\<lparr>m_dirty := m_allDirty, m_isRelativeTransform := True\<rparr>)
   \<and> m_dirty (example_LightData\<lparr>m_dirty := m_allDirty, m_isRelativeTransform := True\<rparr>)
      = m_allDirty
   \<and> m_lightType (example_LightData\<lparr>m_dirty := m_allDirty, m_isRelativeTransform := True\<rparr>)
      = LightType_Unknown
   \<and> Type example_D3DLIGHT9 = D3DLIGHT_POINT
   \<and> m_lightType (snd (merge_D3DLIGHT9 example_ConversionOptions example_Externals
        (example_LightData\<lparr>m_dirty := m_allDirty, m_isRelativeTransform := True\<rparr>)
        example_D3DLIGHT9)) = LightType_Sphere
   \<and> snd (merge_D3DLIGHT9 example_ConversionOptions example_Externals
        (example_LightData\<lparr>m_dirty := m_allDirty, m_isRelativeTransform := True\<rparr>)
        example_D3DLIGHT9)
      \<noteq> example_LightData\<lparr>m_dirty := m_allDirty, m_isRelativeTransform := True\<rparr>"
proof -
  let ?t = "example_LightData\<lparr>m_dirty := m_allDirty, m_isRelativeTransform := True\<rparr>"
  let ?r = "snd (merge_D3DLIGHT9 example_ConversionOptions example_Externals ?t example_D3DLIGHT9)"
  have c: "tryCreate_UsdPrim example_Externals unknown_def_UsdPrim None False False = Some ?t"
    by (simp add: tryCreate_UsdPrim_def isSupportedUsdLight_def getLightType_unknown_def_UsdPrim
        LightData_UsdPrim_unknown_def)
  have u: "m_lightType ?t = LightType_Unknown"
    by (simp add: example_LightData_def)
  have p: "Type example_D3DLIGHT9 = D3DLIGHT_POINT"
    by (simp add: example_D3DLIGHT9_def D3DLIGHT_POINT_def)
  have s: "m_lightType ?r = LightType_Sphere"
    by (simp add: merge_D3DLIGHT9_m_lightType u p D3DLIGHT_POINT_def D3DLIGHT_DIRECTIONAL_def)
  have "?r \<noteq> ?t"
  proof
    assume "?r = ?t"
    then have "m_lightType ?r = m_lightType ?t" by simp
    with s u show False by simp
  qed
  with c u p s show ?thesis by simp
qed

section \<open>The light type of a record\<close>

lemma step_m_lightType:
  "m_lightType (fst (step opts ext this op)) =
     (case op of
        Op_merge_D3DLIGHT9 light \<Rightarrow>
          (if m_lightType this = LightType_Unknown
           then (if Type light = D3DLIGHT_DIRECTIONAL then LightType_Distant else LightType_Sphere)
           else m_lightType this)
      | _ \<Rightarrow> m_lightType this)"
  by (cases op) (simp_all add: merge_m_lightType merge_D3DLIGHT9_m_lightType)

lemma step_keeps_concrete:
  "m_lightType this \<noteq> LightType_Unknown \<Longrightarrow>
   m_lightType (fst (step opts ext this op)) = m_lightType this"
  by (simp add: step_m_lightType split: LightOp.split)

lemma run_keeps_concrete:
  "m_lightType this \<noteq> LightType_Unknown \<Longrightarrow> m_lightType (run opts ext this ops) = m_lightType this"
proof (induction ops arbitrary: this)
  case Nil
  then show ?case by simp
next
  case (Cons op ops)
  have "m_lightType (fst (step opts ext this op)) = m_lightType this"
    using Cons.prems by (rule step_keeps_concrete)
  with Cons show ?case by simp
qed

lemma extractTransform_m_lightType:
  "m_lightType (extractTransform ext pLocalToRoot this) = m_lightType this"
  by (cases pLocalToRoot)
    (simp_all add: extractTransform_def Let_def split_def if_distrib [of m_lightType]
      split del: if_split cong: if_cong)

lemma createFromPointSpot_m_lightType:
  "m_lightType (createFromPointSpot opts ext light) = LightType_Sphere"
  by (simp add: createFromPointSpot_def Let_def)

lemma createFromDirectional_m_lightType:
  "m_lightType (createFromDirectional opts ext light) = LightType_Distant"
  by (simp add: createFromDirectional_def Let_def)

text \<open>
  C7. A record converted from a legacy light call has a concrete type, and
  \<open>extractTransform\<close> leaves the type as it is. One operation on a record (either
  \<open>merge\<close>, or lowering with \<open>toRtLight\<close>) leaves a concrete type as it is; where it
  changes the type, the type was Unknown and is concrete afterwards. So a concrete type
  is the same after any sequence of operations.
\<close>

theorem lightType_only_resolves:
  "(\<forall>created. snd (tryCreate opts ext light) = Some created \<longrightarrow>
      m_lightType created \<noteq> LightType_Unknown)
   \<and> m_lightType (extractTransform ext pLocalToRoot this) = m_lightType this
   \<and> (m_lightType this \<noteq> LightType_Unknown \<longrightarrow>
        m_lightType (fst (step opts ext this op)) = m_lightType this)
   \<and> (m_lightType (fst (step opts ext this op)) \<noteq> m_lightType this \<longrightarrow>
        m_lightType this = LightType_Unknown
        \<and> m_lightType (fst (step opts ext this op)) \<noteq> LightType_Unknown)
   \<and> (m_lightType this \<noteq> LightType_Unknown \<longrightarrow>
        m_lightType (run opts ext this ops) = m_lightType this)"
proof (intro conjI allI impI)
  fix created
  assume "snd (tryCreate opts ext light) = Some created"
  then show "m_lightType created \<noteq> LightType_Unknown"
    by (auto simp: tryCreate_def createFromPointSpot_m_lightType
        createFromDirectional_m_lightType split: if_splits)
next
  show "m_lightType (extractTransform ext pLocalToRoot this) = m_lightType this"
    by (rule extractTransform_m_lightType)
next
  assume "m_lightType this \<noteq> LightType_Unknown"
  then show "m_lightType (fst (step opts ext this op)) = m_lightType this"
    by (rule step_keeps_concrete)
next
  assume c: "m_lightType (fst (step opts ext this op)) \<noteq> m_lightType this"
  then show "m_lightType this = LightType_Unknown"
    using step_keeps_concrete [of this opts ext op] by blast
  with c show "m_lightType (fst (step opts ext this op)) \<noteq> LightType_Unknown"
    by simp
next
  assume "m_lightType this \<noteq> LightType_Unknown"
  then show "m_lightType (run opts ext this ops) = m_lightType this"
    by (rule run_keeps_concrete)
qed

theorem lightType_only_resolves_witness:
  "m_lightType (createFromPointSpot example_ConversionOptions example_Externals example_D3DLIGHT9)
     \<noteq> LightType_Unknown
   \<and> m_lightType (fst (step example_ConversionOptions example_Externals
        (example_LightData\<lparr>m_lightType := LightType_Rect\<rparr>) (Op_merge_D3DLIGHT9 example_D3DLIGHT9)))
      = LightType_Rect
   \<and> m_lightType example_LightData = LightType_Unknown
   \<and> m_lightType (fst (step example_ConversionOptions example_Externals example_LightData
        (Op_merge_D3DLIGHT9 example_D3DLIGHT9))) = LightType_Sphere
   \<and> m_lightType (run example_ConversionOptions example_Externals
        (example_LightData\<lparr>m_lightType := LightType_Rect\<rparr>)
        [Op_merge_D3DLIGHT9 example_D3DLIGHT9, Op_toRtLight None, Op_merge example_LightData])
      = LightType_Rect"
proof -
  have c: "snd (tryCreate example_ConversionOptions example_Externals example_D3DLIGHT9) =
      Some (createFromPointSpot example_ConversionOptions example_Externals example_D3DLIGHT9)"
    by (simp add: tryCreate_def example_D3DLIGHT9_def D3DLIGHT_POINT_def D3DLIGHT_SPOT_def
        D3DLIGHT_DIRECTIONAL_def)
  have r: "m_lightType (example_LightData\<lparr>m_lightType := LightType_Rect\<rparr>) \<noteq> LightType_Unknown"
    by simp
  have u: "m_lightType example_LightData = LightType_Unknown"
    by (simp add: example_LightData_def)
  have s: "m_lightType (fst (step example_ConversionOptions example_Externals example_LightData
        (Op_merge_D3DLIGHT9 example_D3DLIGHT9))) = LightType_Sphere"
    by (simp add: merge_D3DLIGHT9_m_lightType u example_D3DLIGHT9_def D3DLIGHT_DIRECTIONAL_def)
  show ?thesis
    using c r u s
      lightType_only_resolves [where opts = example_ConversionOptions
        and ext = example_Externals and light = example_D3DLIGHT9
        and this = "example_LightData\<lparr>m_lightType := LightType_Rect\<rparr>"
        and op = "Op_merge_D3DLIGHT9 example_D3DLIGHT9"
        and ops = "[Op_merge_D3DLIGHT9 example_D3DLIGHT9, Op_toRtLight None, Op_merge example_LightData]"]
      lightType_only_resolves [where opts = example_ConversionOptions
        and ext = example_Externals and light = example_D3DLIGHT9
        and this = example_LightData
        and op = "Op_merge_D3DLIGHT9 example_D3DLIGHT9"
        and ops = "[]"]
    by simp
qed

section \<open>Validation of the legacy light type\<close>

text \<open>
  C8. For a call whose type tag is below Point or above Directional, \<open>tryCreate\<close> logs
  one error (with the tag) and returns no record. For a tag in the range it logs nothing
  and returns a record: the conversion of a Directional call, or of a Point or Spot call.
\<close>

theorem tryCreate_validates_type:
  "(Type light < D3DLIGHT_POINT \<or> Type light > D3DLIGHT_DIRECTIONAL \<longrightarrow>
      tryCreate opts ext light =
        ([Logger_err ''Attempted to convert a fixed function light with invalid light type: ''
            (Type light)], None))
   \<and> (D3DLIGHT_POINT \<le> Type light \<and> Type light \<le> D3DLIGHT_DIRECTIONAL \<longrightarrow>
        tryCreate opts ext light =
          ([], Some (if Type light = D3DLIGHT_DIRECTIONAL
                     then createFromDirectional opts ext light
                     else createFromPointSpot opts ext light)))"
  by (auto simp: tryCreate_def D3DLIGHT_POINT_def D3DLIGHT_SPOT_def D3DLIGHT_DIRECTIONAL_def)

theorem tryCreate_validates_type_witness:
  "tryCreate example_ConversionOptions example_Externals (example_D3DLIGHT9\<lparr>Type := 0\<rparr>) =
     ([Logger_err ''Attempted to convert a fixed function light with invalid light type: '' 0],
      None)
   \<and> tryCreate example_ConversionOptions example_Externals (example_D3DLIGHT9\<lparr>Type := 4\<rparr>) =
     ([Logger_err ''Attempted to convert a fixed function light with invalid light type: '' 4],
      None)
   \<and> tryCreate example_ConversionOptions example_Externals (example_D3DLIGHT9\<lparr>Type := 3\<rparr>) =
     ([], Some (createFromDirectional example_ConversionOptions example_Externals
                  (example_D3DLIGHT9\<lparr>Type := 3\<rparr>)))
   \<and> tryCreate example_ConversionOptions example_Externals (example_D3DLIGHT9\<lparr>Type := 2\<rparr>) =
     ([], Some (createFromPointSpot example_ConversionOptions example_Externals
                  (example_D3DLIGHT9\<lparr>Type := 2\<rparr>)))"
  using tryCreate_validates_type [of "example_D3DLIGHT9\<lparr>Type := 0\<rparr>"
          example_ConversionOptions example_Externals]
        tryCreate_validates_type [of "example_D3DLIGHT9\<lparr>Type := 4\<rparr>"
          example_ConversionOptions example_Externals]
        tryCreate_validates_type [of "example_D3DLIGHT9\<lparr>Type := 3\<rparr>"
          example_ConversionOptions example_Externals]
        tryCreate_validates_type [of "example_D3DLIGHT9\<lparr>Type := 2\<rparr>"
          example_ConversionOptions example_Externals]
  by (simp add: D3DLIGHT_POINT_def D3DLIGHT_DIRECTIONAL_def)

text \<open>
  C9. When \<open>merge\<close> is given a legacy light call whose type tag is out of range,
  \<open>tryCreate\<close> yields no record, so no field is merged; the record comes back as it was,
  except that a type Unknown is set to Sphere (the default case of the switch falls
  through to the Point and Spot cases).
\<close>

theorem merge_D3DLIGHT9_invalid_type:
  "Type light < D3DLIGHT_POINT \<or> Type light > D3DLIGHT_DIRECTIONAL \<Longrightarrow>
   snd (tryCreate opts ext light) = None
   \<and> snd (merge_D3DLIGHT9 opts ext this light) =
       (if m_lightType this = LightType_Unknown
        then this\<lparr>m_lightType := LightType_Sphere\<rparr>
        else this)"
proof -
  assume h: "Type light < D3DLIGHT_POINT \<or> Type light > D3DLIGHT_DIRECTIONAL"
  then have t: "tryCreate opts ext light =
      ([Logger_err ''Attempted to convert a fixed function light with invalid light type: ''
          (Type light)], None)"
    by (simp add: tryCreate_def)
  from h have n: "Type light \<noteq> D3DLIGHT_POINT" "Type light \<noteq> D3DLIGHT_SPOT"
      "Type light \<noteq> D3DLIGHT_DIRECTIONAL"
    by (auto simp: D3DLIGHT_POINT_def D3DLIGHT_SPOT_def D3DLIGHT_DIRECTIONAL_def)
  show ?thesis
    by (simp add: merge_D3DLIGHT9_def t n)
qed

theorem merge_D3DLIGHT9_invalid_type_witness:
  "(Type (example_D3DLIGHT9\<lparr>Type := 7\<rparr>) < D3DLIGHT_POINT
    \<or> Type (example_D3DLIGHT9\<lparr>Type := 7\<rparr>) > D3DLIGHT_DIRECTIONAL)
   \<and> m_dirty example_LightData \<noteq> m_allDirty
   \<and> snd (tryCreate example_ConversionOptions example_Externals (example_D3DLIGHT9\<lparr>Type := 7\<rparr>))
      = None
   \<and> snd (merge_D3DLIGHT9 example_ConversionOptions example_Externals example_LightData
        (example_D3DLIGHT9\<lparr>Type := 7\<rparr>)) = example_LightData\<lparr>m_lightType := LightType_Sphere\<rparr>"
proof -
  have h: "Type (example_D3DLIGHT9\<lparr>Type := 7\<rparr>) < D3DLIGHT_POINT
      \<or> Type (example_D3DLIGHT9\<lparr>Type := 7\<rparr>) > D3DLIGHT_DIRECTIONAL"
    by (simp add: D3DLIGHT_DIRECTIONAL_def)
  have d: "m_dirty example_LightData \<noteq> m_allDirty"
    by (simp add: example_LightData_def m_allDirty_def)
  have u: "m_lightType example_LightData = LightType_Unknown"
    by (simp add: example_LightData_def)
  show ?thesis
    using h d u merge_D3DLIGHT9_invalid_type [OF h, of example_ConversionOptions
        example_Externals example_LightData]
    by simp
qed

section \<open>The identity hash of a converted legacy light\<close>

lemma createFromDirectional_m_cachedHash:
  "m_cachedHash (createFromDirectional opts ext light) =
     XXH64 ext (float_bytes ext (fdiv (Num 0.0349) (Num 2)))
       (XXH64 ext (Vector3_bytes ext (Direction light)) (RtLightType_value ext RtLightType_Rect))"
  by (simp add: createFromDirectional_def Let_def)

lemma createFromPointSpot_m_cachedHash:
  "m_cachedHash (createFromPointSpot opts ext light) =
     XXH64 ext
       (uint64_bytes
          (XXH64 ext (float_bytes ext (Num 4))
             (XXH64 ext (Vector3_bytes ext (Position light))
                (RtLightType_value ext RtLightType_Sphere))))
       (RtLightShaping_getHash ext
          (if Type light = D3DLIGHT_SPOT
           then \<lparr>enabled =
                   (fneq (fdiv (Phi light) (Num 2)) (fmul (Num 180) kDegreesToRadians)
                    \<or> fneq (fsub (fcos (fdiv (Theta light) (Num 2)))
                              (fcos (fdiv (Phi light) (Num 2)))) (Num 0)
                    \<or> fneq (Falloff light) (Num 0)),
                 primaryAxis = Direction light,
                 cosConeAngle = fcos (fdiv (Phi light) (Num 2)),
                 coneSoftness =
                   fsub (fcos (fdiv (Theta light) (Num 2))) (fcos (fdiv (Phi light) (Num 2))),
                 focusExponent = Falloff light\<rparr>
           else RtLightShaping_default ext))"
  by (simp add: createFromPointSpot_def Let_def getLightShaping_def isShapingEnabled_def)

text \<open>
  C1. The hash of a converted Point, Spot or Directional call is the same under any two
  sets of conversion options (fixed radius, fixed angle, fixed intensity, scene scale)
  and any two intensity helpers, and under any two default-constructed records: it is
  determined by the call and by what the hash is computed with (the xxHash function, the
  bytes of a float, the hash of a light shaping, the numeric values of the light types).
\<close>

theorem legacy_hash_ignores_options:
  "m_cachedHash (createFromPointSpot opts ext light) =
     m_cachedHash (createFromPointSpot opts' (ext\<lparr>LightData_default := d\<rparr>) light)
   \<and> m_cachedHash (createFromDirectional opts ext light) =
     m_cachedHash (createFromDirectional opts' (ext\<lparr>LightData_default := d\<rparr>) light)
   \<and> map_option m_cachedHash (snd (tryCreate opts ext light)) =
     map_option m_cachedHash (snd (tryCreate opts' (ext\<lparr>LightData_default := d\<rparr>) light))"
proof -
  have b: "Vector3_bytes (ext\<lparr>LightData_default := d\<rparr>) v = Vector3_bytes ext v" for v
    by (cases v) simp
  have p: "m_cachedHash (createFromPointSpot opts ext light) =
      m_cachedHash (createFromPointSpot opts' (ext\<lparr>LightData_default := d\<rparr>) light)"
    by (simp only: createFromPointSpot_m_cachedHash b) simp
  have q: "m_cachedHash (createFromDirectional opts ext light) =
      m_cachedHash (createFromDirectional opts' (ext\<lparr>LightData_default := d\<rparr>) light)"
    by (simp only: createFromDirectional_m_cachedHash b) simp
  from p q show ?thesis
    by (simp add: tryCreate_def)
qed

text \<open>
  The spec's example: a Point light at the raw position (1, 2, 3) with the diffuse
  colour (0.5, 0.5, 0.5) has one hash for all values of the fixed radius.
\<close>

theorem legacy_hash_ignores_options_witness:
  "Type example_D3DLIGHT9 = D3DLIGHT_POINT
   \<and> Position example_D3DLIGHT9 = (Num 1, Num 2, Num 3)
   \<and> Diffuse example_D3DLIGHT9 = (Num 0.5, Num 0.5, Num 0.5, Num 1)
   \<and> (\<forall>radius radius'.
        m_cachedHash (createFromPointSpot
          (example_ConversionOptions\<lparr>lightConversionSphereLightFixedRadius := radius\<rparr>)
          example_Externals example_D3DLIGHT9) =
        m_cachedHash (createFromPointSpot
          (example_ConversionOptions\<lparr>lightConversionSphereLightFixedRadius := radius'\<rparr>)
          example_Externals example_D3DLIGHT9))"
proof -
  have e: "example_Externals\<lparr>LightData_default := example_LightData\<rparr> = example_Externals"
    by (simp add: example_Externals_def)
  have "m_cachedHash (createFromPointSpot
          (example_ConversionOptions\<lparr>lightConversionSphereLightFixedRadius := radius\<rparr>)
          example_Externals example_D3DLIGHT9) =
        m_cachedHash (createFromPointSpot
          (example_ConversionOptions\<lparr>lightConversionSphereLightFixedRadius := radius'\<rparr>)
          example_Externals example_D3DLIGHT9)" for radius radius'
    using legacy_hash_ignores_options [of
        "example_ConversionOptions\<lparr>lightConversionSphereLightFixedRadius := radius\<rparr>"
        example_Externals example_D3DLIGHT9
        "example_ConversionOptions\<lparr>lightConversionSphereLightFixedRadius := radius'\<rparr>"
        example_LightData]
    by (simp only: e)
  then show ?thesis
    by (simp add: example_D3DLIGHT9_def D3DLIGHT_POINT_def)
qed

text \<open>The eight bytes of a 64-bit hash, lowest first.\<close>

lemma uint64_bytes_list:
  "uint64_bytes h =
     [ucast h, ucast (drop_bit 8 h), ucast (drop_bit 16 h), ucast (drop_bit 24 h),
      ucast (drop_bit 32 h), ucast (drop_bit 40 h), ucast (drop_bit 48 h), ucast (drop_bit 56 h)]"
proof -
  have "[0..<8] = [0, 1, 2, 3, 4, 5, 6, 7::nat]"
    by (simp add: upt_rec)
  then show ?thesis
    by (simp add: uint64_bytes_def)
qed

text \<open>
  C2, as the code has it. The hash is computed in a fixed sequence with the vector as the
  call supplies it; the normalized direction goes to the z axis of the record, not into
  the hash. For a Directional call the seed is the numeric value of the renderer's Rect
  light type; it is folded with the bytes of the direction, then with the bytes of the
  constant half angle 0.0349 / 2. For a Point or Spot call the seed is the numeric value
  of the Sphere light type; it is folded with the bytes of the position, then with the
  bytes of the constant radius 4; the identity hash is the hash of the eight bytes of
  that value, seeded with the hash of the call's light shaping: the default shaping for
  a Point call, and for a Spot call the shaping built from Phi, Theta, Falloff and the
  direction as supplied. The bytes of a vector are those of its three floats in
  sequence.
\<close>

theorem legacy_hash_sequence:
  "m_cachedHash (createFromDirectional opts ext light) =
     XXH64 ext (float_bytes ext (fdiv (Num 0.0349) (Num 2)))
       (XXH64 ext (Vector3_bytes ext (Direction light)) (RtLightType_value ext RtLightType_Rect))
   \<and> m_zAxis (createFromDirectional opts ext light) =
     safeNormalize ext (Direction light) (Num 0, Num 0, Num 1)
   \<and> m_cachedHash (createFromPointSpot opts ext light) =
     XXH64 ext
       (uint64_bytes
          (XXH64 ext (float_bytes ext (Num 4))
             (XXH64 ext (Vector3_bytes ext (Position light))
                (RtLightType_value ext RtLightType_Sphere))))
       (RtLightShaping_getHash ext
          (if Type light = D3DLIGHT_SPOT
           then \<lparr>enabled =
                   (fneq (fdiv (Phi light) (Num 2)) (fmul (Num 180) kDegreesToRadians)
                    \<or> fneq (fsub (fcos (fdiv (Theta light) (Num 2)))
                              (fcos (fdiv (Phi light) (Num 2)))) (Num 0)
                    \<or> fneq (Falloff light) (Num 0)),
                 primaryAxis = Direction light,
                 cosConeAngle = fcos (fdiv (Phi light) (Num 2)),
                 coneSoftness =
                   fsub (fcos (fdiv (Theta light) (Num 2))) (fcos (fdiv (Phi light) (Num 2))),
                 focusExponent = Falloff light\<rparr>
           else RtLightShaping_default ext))
   \<and> m_position (createFromPointSpot opts ext light) = Position light
   \<and> Vector3_bytes ext (x, y, z) = float_bytes ext x @ float_bytes ext y @ float_bytes ext z
   \<and> uint64_bytes h =
     [ucast h, ucast (drop_bit 8 h), ucast (drop_bit 16 h), ucast (drop_bit 24 h),
      ucast (drop_bit 32 h), ucast (drop_bit 40 h), ucast (drop_bit 48 h), ucast (drop_bit 56 h)]"
proof (intro conjI)
  show "m_zAxis (createFromDirectional opts ext light) =
      safeNormalize ext (Direction light) (Num 0, Num 0, Num 1)"
    by (simp add: createFromDirectional_def Let_def)
  show "m_position (createFromPointSpot opts ext light) = Position light"
    by (simp add: createFromPointSpot_def Let_def split_def)
  show "Vector3_bytes ext (x, y, z) = float_bytes ext x @ float_bytes ext y @ float_bytes ext z"
    by simp
qed (rule createFromDirectional_m_cachedHash createFromPointSpot_m_cachedHash uint64_bytes_list)+

text \<open>
  An instance: a Directional call with the direction (0, 0, 2) has the bytes of
  (0, 0, 2) in its hash and the z axis (0, 0, 1); the Point call at (1, 2, 3) has the
  bytes of (1, 2, 3) in its hash. With the stand-in hash function (the seed plus the
  number of bytes) the two hashes are 17 and 8.
\<close>

theorem legacy_hash_sequence_witness:
  "m_cachedHash (createFromDirectional example_ConversionOptions example_Externals
      (example_D3DLIGHT9\<lparr>Type := 3\<rparr>)) =
     XXH64 example_Externals (float_bytes example_Externals (fdiv (Num 0.0349) (Num 2)))
       (XXH64 example_Externals (Vector3_bytes example_Externals (Num 0, Num 0, Num 2))
          (RtLightType_value example_Externals RtLightType_Rect))
   \<and> m_cachedHash (createFromDirectional example_ConversionOptions example_Externals
        (example_D3DLIGHT9\<lparr>Type := 3\<rparr>)) = 17
   \<and> m_zAxis (createFromDirectional example_ConversionOptions example_Externals
        (example_D3DLIGHT9\<lparr>Type := 3\<rparr>)) = (Num 0, Num 0, Num 1)
   \<and> m_cachedHash (createFromPointSpot example_ConversionOptions example_Externals
        example_D3DLIGHT9) =
     XXH64 example_Externals
       (uint64_bytes
          (XXH64 example_Externals (float_bytes example_Externals (Num 4))
             (XXH64 example_Externals (Vector3_bytes example_Externals (Num 1, Num 2, Num 3))
                (RtLightType_value example_Externals RtLightType_Sphere))))
       (RtLightShaping_getHash example_Externals (RtLightShaping_default example_Externals))
   \<and> m_cachedHash (createFromPointSpot example_ConversionOptions example_Externals
        example_D3DLIGHT9) = 8"
proof -
  have d: "Direction (example_D3DLIGHT9\<lparr>Type := 3\<rparr>) = (Num 0, Num 0, Num 2)"
    and p: "Position example_D3DLIGHT9 = (Num 1, Num 2, Num 3)"
    and t: "Type example_D3DLIGHT9 \<noteq> D3DLIGHT_SPOT"
    by (simp_all add: example_D3DLIGHT9_def D3DLIGHT_SPOT_def)
  have "sqrt 4 = 2"
    using real_sqrt_abs [of 2] by simp
  then have n: "safeNormalize example_Externals (Num 0, Num 0, Num 2) (Num 0, Num 0, Num 1)
      = (Num 0, Num 0, Num 1)"
    by (simp add: example_Externals_def safeNormalize_fallback_def Let_def)
  have a: "m_cachedHash (createFromDirectional example_ConversionOptions example_Externals
        (example_D3DLIGHT9\<lparr>Type := 3\<rparr>)) =
      XXH64 example_Externals (float_bytes example_Externals (fdiv (Num 0.0349) (Num 2)))
        (XXH64 example_Externals (Vector3_bytes example_Externals (Num 0, Num 0, Num 2))
           (RtLightType_value example_Externals RtLightType_Rect))
    \<and> m_zAxis (createFromDirectional example_ConversionOptions example_Externals
        (example_D3DLIGHT9\<lparr>Type := 3\<rparr>)) = (Num 0, Num 0, Num 1)"
    using legacy_hash_sequence [of example_ConversionOptions example_Externals
        "example_D3DLIGHT9\<lparr>Type := 3\<rparr>"]
    by (simp only: d n simp_thms)
  have b: "m_cachedHash (createFromPointSpot example_ConversionOptions example_Externals
        example_D3DLIGHT9) =
      XXH64 example_Externals
        (uint64_bytes
           (XXH64 example_Externals (float_bytes example_Externals (Num 4))
              (XXH64 example_Externals (Vector3_bytes example_Externals (Num 1, Num 2, Num 3))
                 (RtLightType_value example_Externals RtLightType_Sphere))))
        (RtLightShaping_getHash example_Externals (RtLightShaping_default example_Externals))"
    using legacy_hash_sequence [of example_ConversionOptions example_Externals
        example_D3DLIGHT9]
    by (simp only: p t if_False simp_thms)
  have va: "XXH64 example_Externals (float_bytes example_Externals (fdiv (Num 0.0349) (Num 2)))
        (XXH64 example_Externals (Vector3_bytes example_Externals (Num 0, Num 0, Num 2))
           (RtLightType_value example_Externals RtLightType_Rect)) = 17"
    by (simp add: example_Externals_def)
  have vb: "XXH64 example_Externals
        (uint64_bytes
           (XXH64 example_Externals (float_bytes example_Externals (Num 4))
              (XXH64 example_Externals (Vector3_bytes example_Externals (Num 1, Num 2, Num 3))
                 (RtLightType_value example_Externals RtLightType_Sphere))))
        (RtLightShaping_getHash example_Externals (RtLightShaping_default example_Externals)) = 8"
    by (simp add: example_Externals_def uint64_bytes_list)
  from a b va vb show ?thesis
    by simp
qed

text \<open>
  The identity hash of a Point or Spot call is not the value of the chain seed,
  position, radius: in the instance the chain gives 16 and the hash is 8. It also
  depends on the light shaping: with a shaping hash that reads the focus exponent, two
  Spot calls that differ in Falloff alone have different hashes. And the seed of a
  Directional call is not the value of the Distant light type: seeded with that value
  the chain gives another hash.
\<close>

theorem legacy_hash_is_not_the_chain:
  "m_cachedHash (createFromPointSpot example_ConversionOptions example_Externals
      example_D3DLIGHT9) = 8
   \<and> XXH64 example_Externals (float_bytes example_Externals (Num 4))
        (XXH64 example_Externals (Vector3_bytes example_Externals (Position example_D3DLIGHT9))
           (RtLightType_value example_Externals RtLightType_Sphere)) = 16
   \<and> m_cachedHash (createFromPointSpot example_ConversionOptions example_Externals
        example_D3DLIGHT9)
      \<noteq> XXH64 example_Externals (float_bytes example_Externals (Num 4))
          (XXH64 example_Externals (Vector3_bytes example_Externals (Position example_D3DLIGHT9))
             (RtLightType_value example_Externals RtLightType_Sphere))
   \<and> m_cachedHash (createFromPointSpot example_ConversionOptions
        (example_Externals\<lparr>RtLightShaping_getHash :=
           (\<lambda>shaping. if feq (focusExponent shaping) (Num 0) then 0 else 1)\<rparr>)
        (example_D3DLIGHT9\<lparr>Type := 2, Falloff := Num 0\<rparr>))
      \<noteq> m_cachedHash (createFromPointSpot example_ConversionOptions
          (example_Externals\<lparr>RtLightShaping_getHash :=
             (\<lambda>shaping. if feq (focusExponent shaping) (Num 0) then 0 else 1)\<rparr>)
          (example_D3DLIGHT9\<lparr>Type := 2, Falloff := Num 1\<rparr>))
   \<and> m_cachedHash (createFromDirectional example_ConversionOptions example_Externals
        (example_D3DLIGHT9\<lparr>Type := 3\<rparr>))
      \<noteq> XXH64 example_Externals (float_bytes example_Externals (fdiv (Num 0.0349) (Num 2)))
          (XXH64 example_Externals
             (Vector3_bytes example_Externals (Direction (example_D3DLIGHT9\<lparr>Type := 3\<rparr>)))
             (RtLightType_value example_Externals RtLightType_Distant))"
proof -
  let ?f = "example_Externals\<lparr>RtLightShaping_getHash :=
      (\<lambda>shaping. if feq (focusExponent shaping) (Num 0) then 0 else 1)\<rparr>"
  have p: "Position example_D3DLIGHT9 = (Num 1, Num 2, Num 3)"
    and t: "Type example_D3DLIGHT9 \<noteq> D3DLIGHT_SPOT"
    and d: "Direction (example_D3DLIGHT9\<lparr>Type := 3\<rparr>) = (Num 0, Num 0, Num 2)"
    by (simp_all add: example_D3DLIGHT9_def D3DLIGHT_SPOT_def)
  have h: "m_cachedHash (createFromPointSpot example_ConversionOptions example_Externals
      example_D3DLIGHT9) = 8"
    by (simp add: createFromPointSpot_m_cachedHash p t)
      (simp add: example_Externals_def uint64_bytes_list)
  have c: "XXH64 example_Externals (float_bytes example_Externals (Num 4))
      (XXH64 example_Externals (Vector3_bytes example_Externals (Position example_D3DLIGHT9))
         (RtLightType_value example_Externals RtLightType_Sphere)) = 16"
    by (simp add: p) (simp add: example_Externals_def)
  have s0: "m_cachedHash (createFromPointSpot example_ConversionOptions ?f
      (example_D3DLIGHT9\<lparr>Type := 2, Falloff := Num 0\<rparr>)) = 8"
    by (simp add: createFromPointSpot_m_cachedHash D3DLIGHT_SPOT_def)
      (simp add: example_Externals_def uint64_bytes_list)
  have s1: "m_cachedHash (createFromPointSpot example_ConversionOptions ?f
      (example_D3DLIGHT9\<lparr>Type := 2, Falloff := Num 1\<rparr>)) = 9"
    by (simp add: createFromPointSpot_m_cachedHash D3DLIGHT_SPOT_def)
      (simp add: example_Externals_def uint64_bytes_list)
  have r: "m_cachedHash (createFromDirectional example_ConversionOptions example_Externals
      (example_D3DLIGHT9\<lparr>Type := 3\<rparr>)) = 17"
    by (simp add: createFromDirectional_m_cachedHash d) (simp add: example_Externals_def)
  have q: "XXH64 example_Externals (float_bytes example_Externals (fdiv (Num 0.0349) (Num 2)))
      (XXH64 example_Externals
         (Vector3_bytes example_Externals (Direction (example_D3DLIGHT9\<lparr>Type := 3\<rparr>)))
         (RtLightType_value example_Externals RtLightType_Distant)) = 20"
    by (simp add: d) (simp add: example_Externals_def)
  show ?thesis
    by (simp only: h c s0 s1 r q) simp
qed

section \<open>The colour of a converted Point or Spot light\<close>

lemma fmax_Num: "fmax (Num x) (Num y) = Num (max x y)"
  by (simp add: fmax_def max_def)

lemma createFromPointSpot_m_Color:
  "m_Color (createFromPointSpot opts ext light) =
     vdiv (color_r (Diffuse light), color_g (Diffuse light), color_b (Diffuse light))
       (fmax (color_r (Diffuse light)) (fmax (color_g (Diffuse light)) (color_b (Diffuse light))))"
  by (simp add: createFromPointSpot_def Let_def split_def)

lemma max_of_quotients:
  fixes r g b :: real
  assumes "0 < max r (max g b)"
  shows "max (r / max r (max g b)) (max (g / max r (max g b)) (b / max r (max g b))) = 1"
proof -
  define p where "p = max r (max g b)"
  define x where "x = r / p"
  define y where "y = g / p"
  define z where "z = b / p"
  have pos: "0 < p" using assms by (simp add: p_def)
  have "r \<le> p" "g \<le> p" "b \<le> p" by (simp_all add: p_def)
  with pos have le: "x \<le> 1" "y \<le> 1" "z \<le> 1"
    by (simp_all add: x_def y_def z_def)
  have "p = r \<or> p = g \<or> p = b" by (auto simp: p_def max_def)
  with pos have "x = 1 \<or> y = 1 \<or> z = 1"
    by (auto simp: x_def y_def z_def)
  with le have "max x (max y z) = 1" by (auto simp: max_def)
  then show ?thesis by (simp add: x_def y_def z_def p_def)
qed

text \<open>
  C10, as the code has it. \<open>createFromPointSpot\<close> sets the colour to the diffuse colour divided, channel by
  channel, by the largest diffuse channel, whatever that is. For a Point or Spot call
  with finite diffuse channels whose largest is positive, \<open>tryCreate\<close> returns a record
  whose colour is the three quotients, and the largest of them is 1. For a Point or Spot
  call whose diffuse channels are all zero, \<open>tryCreate\<close> still returns a record: the
  divisor is zero and every channel of the colour is zero divided by zero, NaN.
\<close>

theorem createFromPointSpot_color_by_peak:
  "m_Color (createFromPointSpot opts ext light) =
     vdiv (color_r (Diffuse light), color_g (Diffuse light), color_b (Diffuse light))
       (fmax (color_r (Diffuse light)) (fmax (color_g (Diffuse light)) (color_b (Diffuse light))))
   \<and> ((Type light = D3DLIGHT_POINT \<or> Type light = D3DLIGHT_SPOT)
        \<and> Diffuse light = (Num r, Num g, Num b, a) \<and> 0 < max r (max g b) \<longrightarrow>
        (\<exists>created. snd (tryCreate opts ext light) = Some created
           \<and> m_Color created =
               (Num (r / max r (max g b)), Num (g / max r (max g b)), Num (b / max r (max g b)))
           \<and> fmax (fst (m_Color created))
                (fmax (fst (snd (m_Color created))) (snd (snd (m_Color created)))) = Num 1))
   \<and> ((Type light = D3DLIGHT_POINT \<or> Type light = D3DLIGHT_SPOT)
        \<and> Diffuse light = (Num 0, Num 0, Num 0, a) \<longrightarrow>
        (\<exists>created. snd (tryCreate opts ext light) = Some created
           \<and> fmax (color_r (Diffuse light)) (fmax (color_g (Diffuse light)) (color_b (Diffuse light)))
               = Num 0
           \<and> m_Color created = (NaN, NaN, NaN)))"
proof (intro conjI impI)
  show "m_Color (createFromPointSpot opts ext light) =
      vdiv (color_r (Diffuse light), color_g (Diffuse light), color_b (Diffuse light))
        (fmax (color_r (Diffuse light)) (fmax (color_g (Diffuse light)) (color_b (Diffuse light))))"
    by (rule createFromPointSpot_m_Color)
next
  assume h: "(Type light = D3DLIGHT_POINT \<or> Type light = D3DLIGHT_SPOT)
      \<and> Diffuse light = (Num r, Num g, Num b, a) \<and> 0 < max r (max g b)"
  let ?p = "max r (max g b)"
  from h have t: "snd (tryCreate opts ext light) = Some (createFromPointSpot opts ext light)"
    by (auto simp: tryCreate_def D3DLIGHT_POINT_def D3DLIGHT_SPOT_def D3DLIGHT_DIRECTIONAL_def)
  from h have p: "?p \<noteq> 0" by simp
  from h have c: "m_Color (createFromPointSpot opts ext light) =
      (Num (r / ?p), Num (g / ?p), Num (b / ?p))"
    by (simp add: createFromPointSpot_m_Color fmax_Num p)
  from h have m: "max (r / ?p) (max (g / ?p) (b / ?p)) = 1"
    by (simp add: max_of_quotients)
  have f: "fmax (Num (r / ?p)) (fmax (Num (g / ?p)) (Num (b / ?p))) = Num 1"
    by (simp only: fmax_Num m)
  have "snd (tryCreate opts ext light) = Some (createFromPointSpot opts ext light)
      \<and> m_Color (createFromPointSpot opts ext light) = (Num (r / ?p), Num (g / ?p), Num (b / ?p))
      \<and> fmax (fst (m_Color (createFromPointSpot opts ext light)))
           (fmax (fst (snd (m_Color (createFromPointSpot opts ext light))))
              (snd (snd (m_Color (createFromPointSpot opts ext light))))) = Num 1"
    by (simp only: t c f fst_conv snd_conv simp_thms)
  then show "\<exists>created. snd (tryCreate opts ext light) = Some created
      \<and> m_Color created = (Num (r / ?p), Num (g / ?p), Num (b / ?p))
      \<and> fmax (fst (m_Color created))
           (fmax (fst (snd (m_Color created))) (snd (snd (m_Color created)))) = Num 1"
    by (rule exI)
next
  assume h: "(Type light = D3DLIGHT_POINT \<or> Type light = D3DLIGHT_SPOT)
      \<and> Diffuse light = (Num 0, Num 0, Num 0, a)"
  from h have t: "snd (tryCreate opts ext light) = Some (createFromPointSpot opts ext light)"
    by (auto simp: tryCreate_def D3DLIGHT_POINT_def D3DLIGHT_SPOT_def D3DLIGHT_DIRECTIONAL_def)
  from h have c: "m_Color (createFromPointSpot opts ext light) = (NaN, NaN, NaN)"
    by (simp add: createFromPointSpot_m_Color fmax_Num finf_of_sign_def)
  from h have z: "fmax (color_r (Diffuse light))
      (fmax (color_g (Diffuse light)) (color_b (Diffuse light))) = Num 0"
    by (simp add: fmax_Num)
  have "snd (tryCreate opts ext light) = Some (createFromPointSpot opts ext light)
      \<and> fmax (color_r (Diffuse light)) (fmax (color_g (Diffuse light)) (color_b (Diffuse light)))
          = Num 0
      \<and> m_Color (createFromPointSpot opts ext light) = (NaN, NaN, NaN)"
    by (simp only: t c z simp_thms)
  then show "\<exists>created. snd (tryCreate opts ext light) = Some created
      \<and> fmax (color_r (Diffuse light)) (fmax (color_g (Diffuse light)) (color_b (Diffuse light)))
          = Num 0
      \<and> m_Color created = (NaN, NaN, NaN)"
    by (rule exI)
qed

theorem createFromPointSpot_color_by_peak_witness:
  "(\<exists>created.
      snd (tryCreate example_ConversionOptions example_Externals
        (example_D3DLIGHT9\<lparr>Diffuse := (Num 1, Num 4, Num 2, Num 1)\<rparr>)) = Some created
      \<and> m_Color created = (Num (1 / 4), Num 1, Num (1 / 2)))
   \<and> (\<exists>created.
        snd (tryCreate example_ConversionOptions example_Externals
          (example_D3DLIGHT9\<lparr>Type := 2, Diffuse := (Num 0, Num 0, Num 0, Num 1)\<rparr>)) = Some created
        \<and> m_Color created = (NaN, NaN, NaN))"
proof -
  let ?a = "example_D3DLIGHT9\<lparr>Diffuse := (Num 1, Num 4, Num 2, Num 1)\<rparr>"
  let ?z = "example_D3DLIGHT9\<lparr>Type := 2, Diffuse := (Num 0, Num 0, Num 0, Num 1)\<rparr>"
  have ha: "(Type ?a = D3DLIGHT_POINT \<or> Type ?a = D3DLIGHT_SPOT)
      \<and> Diffuse ?a = (Num 1, Num 4, Num 2, Num 1) \<and> (0::real) < max 1 (max 4 2)"
    by (simp add: example_D3DLIGHT9_def D3DLIGHT_POINT_def)
  have hz: "(Type ?z = D3DLIGHT_POINT \<or> Type ?z = D3DLIGHT_SPOT)
      \<and> Diffuse ?z = (Num 0, Num 0, Num 0, Num 1)"
    by (simp add: D3DLIGHT_SPOT_def)
  have m: "max (1::real) (max 4 2) = 4" by simp
  have "\<exists>created.
      snd (tryCreate example_ConversionOptions example_Externals ?a) = Some created
      \<and> m_Color created =
          (Num (1 / max 1 (max 4 2)), Num (4 / max 1 (max 4 2)), Num (2 / max 1 (max 4 2)))
      \<and> fmax (fst (m_Color created))
           (fmax (fst (snd (m_Color created))) (snd (snd (m_Color created)))) = Num 1"
    using ha createFromPointSpot_color_by_peak [of example_ConversionOptions example_Externals
        ?a 1 4 2 "Num 1"]
    by blast
  then have A: "\<exists>created.
      snd (tryCreate example_ConversionOptions example_Externals ?a) = Some created
      \<and> m_Color created = (Num (1 / 4), Num 1, Num (1 / 2))"
    unfolding m by auto
  have B: "\<exists>created.
      snd (tryCreate example_ConversionOptions example_Externals ?z) = Some created
      \<and> m_Color created = (NaN, NaN, NaN)"
    using hz createFromPointSpot_color_by_peak [of example_ConversionOptions example_Externals
        ?z 0 0 0 "Num 1"]
    by blast
  from A B show ?thesis by blast
qed

text \<open>
  Without finite channels the largest component need not be 1: for the diffuse colour
  (+infinity, 1, 0) the largest channel is positive, and the colour is (NaN, 0, 0).
\<close>

theorem createFromPointSpot_color_infinite_peak:
  "Type (example_D3DLIGHT9\<lparr>Diffuse := (PInf, Num 1, Num 0, Num 1)\<rparr>) = D3DLIGHT_POINT
   \<and> fless (Num 0)
        (fmax (color_r (Diffuse (example_D3DLIGHT9\<lparr>Diffuse := (PInf, Num 1, Num 0, Num 1)\<rparr>)))
           (fmax (color_g (Diffuse (example_D3DLIGHT9\<lparr>Diffuse := (PInf, Num 1, Num 0, Num 1)\<rparr>)))
              (color_b (Diffuse (example_D3DLIGHT9\<lparr>Diffuse := (PInf, Num 1, Num 0, Num 1)\<rparr>)))))
   \<and> snd (tryCreate example_ConversionOptions example_Externals
        (example_D3DLIGHT9\<lparr>Diffuse := (PInf, Num 1, Num 0, Num 1)\<rparr>)) =
      Some (createFromPointSpot example_ConversionOptions example_Externals
        (example_D3DLIGHT9\<lparr>Diffuse := (PInf, Num 1, Num 0, Num 1)\<rparr>))
   \<and> m_Color (createFromPointSpot example_ConversionOptions example_Externals
        (example_D3DLIGHT9\<lparr>Diffuse := (PInf, Num 1, Num 0, Num 1)\<rparr>)) = (NaN, Num 0, Num 0)
   \<and> fmax NaN (fmax (Num 0) (Num 0)) \<noteq> Num 1"
proof -
  let ?l = "example_D3DLIGHT9\<lparr>Diffuse := (PInf, Num 1, Num 0, Num 1)\<rparr>"
  have t: "Type ?l = D3DLIGHT_POINT"
    by (simp add: example_D3DLIGHT9_def D3DLIGHT_POINT_def)
  have p: "fmax (color_r (Diffuse ?l)) (fmax (color_g (Diffuse ?l)) (color_b (Diffuse ?l))) = PInf"
    by (simp add: fmax_def)
  have c: "snd (tryCreate example_ConversionOptions example_Externals ?l) =
      Some (createFromPointSpot example_ConversionOptions example_Externals ?l)"
    using t by (simp add: tryCreate_def D3DLIGHT_POINT_def D3DLIGHT_DIRECTIONAL_def)
  have m: "m_Color (createFromPointSpot example_ConversionOptions example_Externals ?l) =
      (NaN, Num 0, Num 0)"
    by (simp only: createFromPointSpot_m_Color p) simp
  have f: "fmax NaN (fmax (Num 0) (Num 0)) \<noteq> Num 1"
    by (simp add: fmax_def)
  from t p c m f show ?thesis
    by simp
qed

section \<open>Sanitizing the transform\<close>

text \<open>
  The record that \<open>extractTransform\<close> returns for a transform, member by member, for
  any \<^verbatim>\<open>Normalize\<close>: a scale is negated and its axis flipped where the float that
  \<^verbatim>\<open>Normalize\<close> returned is negative.
\<close>

lemma extractTransform_scales:
  shows "m_xScale (extractTransform ext (Some M) this) =
           (if fless (fst (GfVec3f_Normalize ext (GetRow3 M 0))) (Num 0)
            then fneg (fst (GfVec3f_Normalize ext (GetRow3 M 0)))
            else fst (GfVec3f_Normalize ext (GetRow3 M 0)))"
    and "m_yScale (extractTransform ext (Some M) this) =
           (if fless (fst (GfVec3f_Normalize ext (GetRow3 M 1))) (Num 0)
            then fneg (fst (GfVec3f_Normalize ext (GetRow3 M 1)))
            else fst (GfVec3f_Normalize ext (GetRow3 M 1)))"
    and "m_zScale (extractTransform ext (Some M) this) =
           (if fless (fst (GfVec3f_Normalize ext (GetRow3 M 2))) (Num 0)
            then fneg (fst (GfVec3f_Normalize ext (GetRow3 M 2)))
            else fst (GfVec3f_Normalize ext (GetRow3 M 2)))"
  by (simp_all add: extractTransform_def Let_def split_def
      if_distrib [of m_xScale] if_distrib [of m_yScale] if_distrib [of m_zScale]
      if_distrib [of m_lightType] split del: if_split cong: if_cong)

lemma extractTransform_axes:
  shows "m_xAxis (extractTransform ext (Some M) this) =
           (if fless (fst (GfVec3f_Normalize ext (GetRow3 M 0))) (Num 0)
            then vneg (sanitizeSingularity ext (snd (GfVec3f_Normalize ext (GetRow3 M 0)))
                         (Num 1, Num 0, Num 0))
            else sanitizeSingularity ext (snd (GfVec3f_Normalize ext (GetRow3 M 0)))
                   (Num 1, Num 0, Num 0))"
    and "m_yAxis (extractTransform ext (Some M) this) =
           (if fless (fst (GfVec3f_Normalize ext (GetRow3 M 1))) (Num 0)
            then vneg (sanitizeSingularity ext (snd (GfVec3f_Normalize ext (GetRow3 M 1)))
                         (Num 0, Num 1, Num 0))
            else sanitizeSingularity ext (snd (GfVec3f_Normalize ext (GetRow3 M 1)))
                   (Num 0, Num 1, Num 0))"
    and "m_zAxis (extractTransform ext (Some M) this) =
           (if fless (fst (GfVec3f_Normalize ext (GetRow3 M 2))) (Num 0)
            then vneg (if m_lightType this = LightType_Sphere \<or> m_lightType this = LightType_Unknown
                       then vneg (sanitizeSingularity ext (snd (GfVec3f_Normalize ext (GetRow3 M 2)))
                                    (Num 0, Num 0, Num 1))
                       else sanitizeSingularity ext (snd (GfVec3f_Normalize ext (GetRow3 M 2)))
                              (Num 0, Num 0, Num 1))
            else (if m_lightType this = LightType_Sphere \<or> m_lightType this = LightType_Unknown
                  then vneg (sanitizeSingularity ext (snd (GfVec3f_Normalize ext (GetRow3 M 2)))
                               (Num 0, Num 0, Num 1))
                  else sanitizeSingularity ext (snd (GfVec3f_Normalize ext (GetRow3 M 2)))
                         (Num 0, Num 0, Num 1)))"
  by (simp_all add: extractTransform_def Let_def split_def
      if_distrib [of m_xScale] if_distrib [of m_yScale] if_distrib [of m_zScale]
      if_distrib [of m_xAxis] if_distrib [of m_yAxis] if_distrib [of m_zAxis]
      if_distrib [of m_lightType] split del: if_split cong: if_cong)

text \<open>
  The \<^verbatim>\<open>Normalize\<close> that the code calls returns the previous length of the vector (the
  source's comment on the three calls says so, and the spec). A length is not negative.
\<close>

lemma fsqrt_not_negative: "\<not> fless (fsqrt a) (Num 0)"
  by (cases a) simp_all

lemma Normalize_length_not_negative: "\<not> fless (fst (Normalize_length v)) (Num 0)"
  by (cases v) (simp add: Normalize_length_def Let_def fsqrt_not_negative)

lemma Normalize_length_minus_two:
  "Normalize_length (Num (- 2), Num 0, Num 0) = (Num 2, (Num (- 1), Num 0, Num 0))"
proof -
  have "sqrt 4 = 2"
    using real_sqrt_abs [of 2] by simp
  then show ?thesis
    by (simp add: Normalize_length_def Let_def)
qed

lemma GetLength_not_negative: "\<not> fless (GetLength v) (Num 0)"
  by (cases v) (simp add: fsqrt_not_negative)

lemma extractTransform_scale_minus_two:
  "m_xScale (extractTransform (ext\<lparr>GfVec3f_Normalize := Normalize_length\<rparr>)
      (Some ((Num (- 2), Num 0, Num 0, Num 0), (Num 0, Num 1, Num 0, Num 0),
             (Num 0, Num 0, Num 1, Num 0), (Num 0, Num 0, Num 0, Num 1))) this) = Num 2"
  by (simp add: extractTransform_scales GetRow3_def mat_at_def Normalize_length_minus_two)

text \<open>
  C5, as the code has it. With a \<^verbatim>\<open>Normalize\<close> that returns the length, the scale of each
  axis is the length of the axis's row of the transform and is not negative, so the
  branch that negates a negative scale and flips its axis is not taken for any axis: the
  axis of the record is the sanitized normalized row (for z, negated for Sphere and
  Unknown lights). In particular a transform whose x row is (-2, 0, 0) has the x scale 2
  and, as x axis, the sanitized normalized row (-1, 0, 0) itself.
\<close>

theorem extractTransform_scale_is_row_length:
  "m_xScale (extractTransform (ext\<lparr>GfVec3f_Normalize := Normalize_length\<rparr>)
      (Some ((a0, a1, a2, a3), (b0, b1, b2, b3), (c0, c1, c2, c3), r3)) this)
     = GetLength (a0, a1, a2)
   \<and> m_yScale (extractTransform (ext\<lparr>GfVec3f_Normalize := Normalize_length\<rparr>)
        (Some ((a0, a1, a2, a3), (b0, b1, b2, b3), (c0, c1, c2, c3), r3)) this)
     = GetLength (b0, b1, b2)
   \<and> m_zScale (extractTransform (ext\<lparr>GfVec3f_Normalize := Normalize_length\<rparr>)
        (Some ((a0, a1, a2, a3), (b0, b1, b2, b3), (c0, c1, c2, c3), r3)) this)
     = GetLength (c0, c1, c2)
   \<and> \<not> fless (GetLength (a0, a1, a2)) (Num 0)
   \<and> \<not> fless (GetLength (b0, b1, b2)) (Num 0)
   \<and> \<not> fless (GetLength (c0, c1, c2)) (Num 0)
   \<and> m_xAxis (extractTransform (ext\<lparr>GfVec3f_Normalize := Normalize_length\<rparr>)
        (Some ((a0, a1, a2, a3), (b0, b1, b2, b3), (c0, c1, c2, c3), r3)) this)
     = sanitizeSingularity ext (snd (Normalize_length (a0, a1, a2))) (Num 1, Num 0, Num 0)
   \<and> m_yAxis (extractTransform (ext\<lparr>GfVec3f_Normalize := Normalize_length\<rparr>)
        (Some ((a0, a1, a2, a3), (b0, b1, b2, b3), (c0, c1, c2, c3), r3)) this)
     = sanitizeSingularity ext (snd (Normalize_length (b0, b1, b2))) (Num 0, Num 1, Num 0)
   \<and> m_zAxis (extractTransform (ext\<lparr>GfVec3f_Normalize := Normalize_length\<rparr>)
        (Some ((a0, a1, a2, a3), (b0, b1, b2, b3), (c0, c1, c2, c3), r3)) this)
     = (if m_lightType this = LightType_Sphere \<or> m_lightType this = LightType_Unknown
        then vneg (sanitizeSingularity ext (snd (Normalize_length (c0, c1, c2)))
                     (Num 0, Num 0, Num 1))
        else sanitizeSingularity ext (snd (Normalize_length (c0, c1, c2))) (Num 0, Num 0, Num 1))
   \<and> m_xScale (extractTransform (ext\<lparr>GfVec3f_Normalize := Normalize_length\<rparr>)
        (Some ((Num (- 2), Num 0, Num 0, a3), (b0, b1, b2, b3), (c0, c1, c2, c3), r3)) this)
     = Num 2
   \<and> m_xAxis (extractTransform (ext\<lparr>GfVec3f_Normalize := Normalize_length\<rparr>)
        (Some ((Num (- 2), Num 0, Num 0, a3), (b0, b1, b2, b3), (c0, c1, c2, c3), r3)) this)
     = sanitizeSingularity ext (Num (- 1), Num 0, Num 0) (Num 1, Num 0, Num 0)"
proof -
  let ?e = "ext\<lparr>GfVec3f_Normalize := Normalize_length\<rparr>"
  have r: "GetRow3 ((x0, x1, x2, x3), (y0, y1, y2, y3), (z0, z1, z2, z3), w) 0 = (x0, x1, x2)"
    "GetRow3 ((x0, x1, x2, x3), (y0, y1, y2, y3), (z0, z1, z2, z3), w) 1 = (y0, y1, y2)"
    "GetRow3 ((x0, x1, x2, x3), (y0, y1, y2, y3), (z0, z1, z2, z3), w) 2 = (z0, z1, z2)"
    for x0 x1 x2 x3 y0 y1 y2 y3 z0 z1 z2 z3 :: cfloat and w :: GfVec4f
    by (simp_all add: GetRow3_def mat_at_def)
  have n: "GfVec3f_Normalize ?e = Normalize_length"
    by simp
  have l: "fst (Normalize_length v) = GetLength v" for v
    by (simp add: Normalize_length_def Let_def)
  have s: "sanitizeSingularity ?e = sanitizeSingularity ext"
    by simp
  show ?thesis
    by (simp only: extractTransform_scales extractTransform_axes r n l s GetLength_not_negative
        Normalize_length_minus_two if_False simp_thms fst_conv snd_conv)
      simp
qed

text \<open>An instance: the transform that scales x by -2, on the example record.\<close>

theorem extractTransform_scale_is_row_length_witness:
  "m_xScale (extractTransform example_Externals (Some minus_two_x_transform) example_LightData)
     = Num 2
   \<and> m_xAxis (extractTransform example_Externals (Some minus_two_x_transform) example_LightData)
     = (Num (- 1), Num 0, Num 0)
   \<and> m_yScale (extractTransform example_Externals (Some minus_two_x_transform) example_LightData)
     = Num 1
   \<and> m_yAxis (extractTransform example_Externals (Some minus_two_x_transform) example_LightData)
     = (Num 0, Num 1, Num 0)"
proof -
  have e: "example_Externals\<lparr>GfVec3f_Normalize := Normalize_length\<rparr> = example_Externals"
    by (simp add: example_Externals_def)
  have s: "sanitizeSingularity example_Externals = sanitizeSingularity_fallback"
    by (simp add: example_Externals_def)
  have y: "GetLength (Num 0, Num 1, Num 0) = Num 1"
    "Normalize_length (Num 0, Num 1, Num 0) = (Num 1, (Num 0, Num 1, Num 0))"
    by (simp_all add: Normalize_length_def Let_def)
  have "m_xScale (extractTransform (example_Externals\<lparr>GfVec3f_Normalize := Normalize_length\<rparr>)
        (Some ((Num (- 2), Num 0, Num 0, Num 0), (Num 0, Num 1, Num 0, Num 0),
               (Num 0, Num 0, Num 1, Num 0), (Num 0, Num 0, Num 0, Num 1))) example_LightData)
      = Num 2
    \<and> m_xAxis (extractTransform (example_Externals\<lparr>GfVec3f_Normalize := Normalize_length\<rparr>)
        (Some ((Num (- 2), Num 0, Num 0, Num 0), (Num 0, Num 1, Num 0, Num 0),
               (Num 0, Num 0, Num 1, Num 0), (Num 0, Num 0, Num 0, Num 1))) example_LightData)
      = sanitizeSingularity example_Externals (Num (- 1), Num 0, Num 0) (Num 1, Num 0, Num 0)
    \<and> m_yScale (extractTransform (example_Externals\<lparr>GfVec3f_Normalize := Normalize_length\<rparr>)
        (Some ((Num (- 2), Num 0, Num 0, Num 0), (Num 0, Num 1, Num 0, Num 0),
               (Num 0, Num 0, Num 1, Num 0), (Num 0, Num 0, Num 0, Num 1))) example_LightData)
      = GetLength (Num 0, Num 1, Num 0)
    \<and> m_yAxis (extractTransform (example_Externals\<lparr>GfVec3f_Normalize := Normalize_length\<rparr>)
        (Some ((Num (- 2), Num 0, Num 0, Num 0), (Num 0, Num 1, Num 0, Num 0),
               (Num 0, Num 0, Num 1, Num 0), (Num 0, Num 0, Num 0, Num 1))) example_LightData)
      = sanitizeSingularity example_Externals (snd (Normalize_length (Num 0, Num 1, Num 0)))
          (Num 0, Num 1, Num 0)"
    using extractTransform_scale_is_row_length [of example_Externals "Num (- 2)" "Num 0" "Num 0"
        "Num 0" "Num 0" "Num 1" "Num 0" "Num 0" "Num 0" "Num 0" "Num 1" "Num 0"
        "(Num 0, Num 0, Num 0, Num 1)" example_LightData]
    by blast
  then show ?thesis
    by (simp add: e s y minus_two_x_transform_def sanitizeSingularity_fallback_def)
qed

text \<open>
  For the transform that scales x by -2 the float extracted for x is 2, not negative, and
  the x axis of the record is the axis computed before the flip step, not its negation.
\<close>

theorem extractTransform_minus_two_not_flipped:
  "fst (GfVec3f_Normalize example_Externals (GetRow3 minus_two_x_transform 0)) = Num 2
   \<and> \<not> fless (fst (GfVec3f_Normalize example_Externals (GetRow3 minus_two_x_transform 0))) (Num 0)
   \<and> sanitizeSingularity example_Externals
        (snd (GfVec3f_Normalize example_Externals (GetRow3 minus_two_x_transform 0)))
        (Num 1, Num 0, Num 0) = (Num (- 1), Num 0, Num 0)
   \<and> m_xAxis (extractTransform example_Externals (Some minus_two_x_transform) example_LightData)
      = (Num (- 1), Num 0, Num 0)
   \<and> m_xAxis (extractTransform example_Externals (Some minus_two_x_transform) example_LightData)
      \<noteq> vneg (sanitizeSingularity example_Externals
                (snd (GfVec3f_Normalize example_Externals (GetRow3 minus_two_x_transform 0)))
                (Num 1, Num 0, Num 0))"
proof -
  have r: "GetRow3 minus_two_x_transform 0 = (Num (- 2), Num 0, Num 0)"
    by (simp add: GetRow3_def mat_at_def minus_two_x_transform_def)
  have n: "GfVec3f_Normalize example_Externals (GetRow3 minus_two_x_transform 0) =
      (Num 2, (Num (- 1), Num 0, Num 0))"
    by (simp add: r example_Externals_def Normalize_length_minus_two)
  have s: "sanitizeSingularity example_Externals (Num (- 1), Num 0, Num 0) (Num 1, Num 0, Num 0)
      = (Num (- 1), Num 0, Num 0)"
    by (simp add: example_Externals_def sanitizeSingularity_fallback_def)
  have a: "m_xAxis (extractTransform example_Externals (Some minus_two_x_transform)
      example_LightData) = (Num (- 1), Num 0, Num 0)"
    by (simp add: extractTransform_axes n s)
  show ?thesis
    by (simp add: n s a)
qed

section \<open>A transform with a zero row\<close>

text \<open>
  C4, at a failing input. \<open>tryCreate\<close> accepts the transform above for a supported node:
  its guard reads the three columns, and none is the zero vector. \<open>extractTransform\<close>
  reads the rows: with a \<^verbatim>\<open>Normalize\<close> that returns the length, the x scale of the record
  is the length of the zero row, 0, and the asserted condition that all three scales are
  positive is false, whatever the other parameters and the record before are.
\<close>

theorem extractTransform_zero_row_scale:
  "GetColumn zero_row_transform 3 = (Num 0, Num 0, Num 0, Num 1)
   \<and> (\<forall>ext. tryCreate_UsdPrim ext example_UsdPrim (Some zero_row_transform) False False =
          Some (LightData_UsdPrim ext example_UsdPrim (Some zero_row_transform) False False))
   \<and> (\<forall>ext this.
        m_xScale (extractTransform (ext\<lparr>GfVec3f_Normalize := Normalize_length\<rparr>)
          (Some zero_row_transform) this) = Num 0
        \<and> \<not> extractTransform_asserts (ext\<lparr>GfVec3f_Normalize := Normalize_length\<rparr>)
            (extractTransform (ext\<lparr>GfVec3f_Normalize := Normalize_length\<rparr>)
               (Some zero_row_transform) this))
   \<and> m_xScale (LightData_UsdPrim example_Externals example_UsdPrim (Some zero_row_transform)
        False False) = Num 0"
proof -
  have c: "GetColumn zero_row_transform 3 = (Num 0, Num 0, Num 0, Num 1)"
    by (simp add: GetColumn_def mat_at_def zero_row_transform_def)
  have a: "tryCreate_UsdPrim ext example_UsdPrim (Some zero_row_transform) False False =
      Some (LightData_UsdPrim ext example_UsdPrim (Some zero_row_transform) False False)" for ext
    by (simp add: tryCreate_UsdPrim_def Let_def isSupportedUsdLight_def getLightType_def
        example_UsdPrim_def mat_at_def zero_row_transform_def)
  have n: "Normalize_length (GetRow3 zero_row_transform 0) = (Num 0, (Num 0, Num 0, Num 0))"
    by (simp add: GetRow3_def mat_at_def zero_row_transform_def Normalize_length_def Let_def)
  have x: "m_xScale (extractTransform (ext\<lparr>GfVec3f_Normalize := Normalize_length\<rparr>)
      (Some zero_row_transform) this) = Num 0" for ext this
    by (simp add: extractTransform_scales n)
  have f: "\<not> extractTransform_asserts (ext\<lparr>GfVec3f_Normalize := Normalize_length\<rparr>)
      (extractTransform (ext\<lparr>GfVec3f_Normalize := Normalize_length\<rparr>)
         (Some zero_row_transform) this)" for ext this
    by (simp add: extractTransform_asserts_def x)
  have e: "example_Externals\<lparr>GfVec3f_Normalize := Normalize_length\<rparr> = example_Externals"
    by (simp add: example_Externals_def)
  have l: "m_xScale (LightData_UsdPrim example_Externals example_UsdPrim
      (Some zero_row_transform) False False) = Num 0"
    using x [of example_Externals]
    by (simp add: LightData_UsdPrim_def sanitizeData_def Let_def e)
      (simp add: example_Externals_def)
  from c a x f l show ?thesis by blast
qed

end
